theory Spec2Isabelle
  imports Complex_Main
begin

section \<open>JavaScript numbers\<close>

text \<open>
  Rekapi computes with JavaScript numbers. A finite number is modelled by the rational it
  denotes (the rounding of a quotient that has no exact double is not modelled, and the
  negative zero is identified with zero); the three non-finite values are kept, because
  the engine produces them: \<^verbatim>\<open>Math.max\<close> of no arguments is \<^verbatim>\<open>-Infinity\<close>, a division by
  an animation length of zero is \<^verbatim>\<open>Infinity\<close> or \<^verbatim>\<open>NaN\<close>, and so is the remainder.
\<close>

datatype jsnum = Fin rat | PosInf | NegInf | NaN

text \<open>The comparison \<^verbatim>\<open>a <= b\<close>: false as soon as one side is \<^verbatim>\<open>NaN\<close>.\<close>

fun js_le :: "jsnum \<Rightarrow> jsnum \<Rightarrow> bool" where
  "js_le NaN b = False"
| "js_le a NaN = False"
| "js_le NegInf b = True"
| "js_le a PosInf = True"
| "js_le (Fin x) (Fin y) = (x \<le> y)"
| "js_le PosInf b = False"
| "js_le a NegInf = False"

text \<open>The comparison \<^verbatim>\<open>a >= b\<close>.\<close>

definition js_ge :: "jsnum \<Rightarrow> jsnum \<Rightarrow> bool" where
  "js_ge a b = js_le b a"

text \<open>The subtraction \<^verbatim>\<open>a - b\<close>.\<close>

fun js_sub :: "jsnum \<Rightarrow> jsnum \<Rightarrow> jsnum" where
  "js_sub NaN b = NaN"
| "js_sub a NaN = NaN"
| "js_sub (Fin x) (Fin y) = Fin (x - y)"
| "js_sub (Fin x) PosInf = NegInf"
| "js_sub (Fin x) NegInf = PosInf"
| "js_sub PosInf PosInf = NaN"
| "js_sub PosInf b = PosInf"
| "js_sub NegInf NegInf = NaN"
| "js_sub NegInf b = NegInf"

text \<open>The division \<^verbatim>\<open>a / b\<close>; a finite number divided by zero is infinite, or \<^verbatim>\<open>NaN\<close> for \<^verbatim>\<open>0 / 0\<close>.\<close>

fun js_div :: "jsnum \<Rightarrow> jsnum \<Rightarrow> jsnum" where
  "js_div NaN b = NaN"
| "js_div a NaN = NaN"
| "js_div (Fin x) (Fin y) =
     (if y \<noteq> 0 then Fin (x / y)
      else if 0 < x then PosInf else if x < 0 then NegInf else NaN)"
| "js_div (Fin x) b = Fin 0"
| "js_div PosInf (Fin y) = (if 0 \<le> y then PosInf else NegInf)"
| "js_div NegInf (Fin y) = (if 0 \<le> y then NegInf else PosInf)"
| "js_div a b = NaN"

text \<open>\<^verbatim>\<open>Math.floor\<close>.\<close>

fun Math_floor :: "jsnum \<Rightarrow> jsnum" where
  "Math_floor (Fin x) = Fin (of_int \<lfloor>x\<rfloor>)"
| "Math_floor a = a"

text \<open>
  The remainder \<^verbatim>\<open>a % b\<close>: the quotient is truncated towards zero, so the result has the
  sign of the dividend; it is \<^verbatim>\<open>NaN\<close> when the dividend is not finite or the divisor is zero,
  and the dividend itself when the divisor is infinite.
\<close>

definition truncateQuotient :: "rat \<Rightarrow> int" where
  "truncateQuotient q = (if 0 \<le> q then \<lfloor>q\<rfloor> else \<lceil>q\<rceil>)"

fun js_rem :: "jsnum \<Rightarrow> jsnum \<Rightarrow> jsnum" where
  "js_rem (Fin x) (Fin y) = (if y = 0 then NaN else Fin (x - y * of_int (truncateQuotient (x / y))))"
| "js_rem (Fin x) PosInf = Fin x"
| "js_rem (Fin x) NegInf = Fin x"
| "js_rem a b = NaN"

text \<open>Truthiness of a number: zero and \<^verbatim>\<open>NaN\<close> are falsy.\<close>

fun truthy :: "jsnum \<Rightarrow> bool" where
  "truthy (Fin x) = (x \<noteq> 0)"
| "truthy NaN = False"
| "truthy a = True"

text \<open>\<^verbatim>\<open>Math.max.apply(Math, xs)\<close> on an array of finite numbers: \<^verbatim>\<open>-Infinity\<close> on the empty array.\<close>

fun Math_max :: "rat list \<Rightarrow> jsnum" where
  "Math_max [] = NegInf"
| "Math_max (x # xs) = Fin (fold max xs x)"

text \<open>\<^verbatim>\<open>Math.min.apply(Math, xs)\<close> likewise: \<^verbatim>\<open>Infinity\<close> on the empty array.\<close>

fun Math_min :: "rat list \<Rightarrow> jsnum" where
  "Math_min [] = PosInf"
| "Math_min (x # xs) = Fin (fold min xs x)"

text \<open>A timestamp field holds \<^verbatim>\<open>null\<close> until it is first written; in arithmetic \<^verbatim>\<open>null\<close> counts as 0.\<close>

fun toNumber :: "rat option \<Rightarrow> rat" where
  "toNumber None = 0"
| "toNumber (Some x) = x"


section \<open>The engine: playback state\<close>

type_synonym aid = nat

datatype playState = STOPPED | PAUSED | PLAYING

datatype event =
  onFrameRender | onAnimationComplete | onPlayStateChange | onPlay | onPause | onStop
  | onBeforeDraw

text \<open>
  The fields of a \<^verbatim>\<open>Kapi\<close> instance. \<open>actors\<close> holds the keys of the object \<^verbatim>\<open>_actors\<close>, each
  bound to the actor of that id. Event handlers are callbacks of the user: the model
  records which events were fired, in order, in \<open>fired\<close>. \<open>pendingTick\<close> says whether the
  timer whose handle is \<^verbatim>\<open>_loopId\<close> is still outstanding. The configuration, the drawing
  context and the custom draw order function (null by default) are left out.
\<close>

record Kapi =
  actors :: "aid list"
  drawOrder :: "aid list"
  playState :: playState
  timesToIterate :: jsnum
  animationLength :: jsnum
  pendingTick :: bool
  loopTimestamp :: "rat option"
  pausedAtTime :: "rat option"
  lastRenderedMillisecond :: jsnum
  fired :: "event list"

text \<open>The constructor.\<close>

definition Kapi_new :: Kapi where
  "Kapi_new = \<lparr> actors = [], drawOrder = [], playState = STOPPED,
     timesToIterate = Fin (- 1), animationLength = Fin 0, pendingTick = False,
     loopTimestamp = None, pausedAtTime = None, lastRenderedMillisecond = Fin 0,
     fired = [] \<rparr>"

definition fireEvent :: "Kapi \<Rightarrow> event \<Rightarrow> Kapi" where
  "fireEvent k e = k\<lparr>fired := fired k @ [e]\<rparr>"

definition cancelLoop :: "Kapi \<Rightarrow> Kapi" where
  "cancelLoop k = k\<lparr>pendingTick := False\<rparr>"

text \<open>\<^verbatim>\<open>tick\<close> schedules the update function; what that function does when it runs is \<open>updateFn\<close> below.\<close>

definition tick :: "Kapi \<Rightarrow> Kapi" where
  "tick k = k\<lparr>pendingTick := True\<rparr>"

definition determineCurrentLoopIteration :: "Kapi \<Rightarrow> jsnum \<Rightarrow> jsnum" where
  "determineCurrentLoopIteration k timeSinceStart =
     Math_floor (js_div timeSinceStart (animationLength k))"

text \<open>\<open>now\<close> is the clock reading of the call.\<close>

definition calculateTimeSinceStart :: "Kapi \<Rightarrow> rat \<Rightarrow> rat" where
  "calculateTimeSinceStart k now = now - toNumber (loopTimestamp k)"

definition isAnimationComplete :: "Kapi \<Rightarrow> jsnum \<Rightarrow> bool" where
  "isAnimationComplete k currentLoopIteration =
     (js_ge currentLoopIteration (timesToIterate k) \<and> timesToIterate k \<noteq> Fin (- 1))"

definition calculateLoopPosition :: "Kapi \<Rightarrow> jsnum \<Rightarrow> jsnum \<Rightarrow> jsnum" where
  "calculateLoopPosition k forMillisecond currentLoopIteration =
     (if isAnimationComplete k currentLoopIteration then animationLength k
      else js_rem forMillisecond (animationLength k))"

text \<open>
  \<^verbatim>\<open>play(opt_howManyTimes)\<close>; the argument is \<open>None\<close> when it is not given. The calls to the
  tween methods of the actors (\<^verbatim>\<open>resume\<close>, \<^verbatim>\<open>pause\<close>, \<^verbatim>\<open>stop\<close>, inherited from Shifty) do not
  touch the fields modelled here and are left out, in \<open>pause\<close> and \<open>stop\<close> as well.
\<close>

definition play :: "Kapi \<Rightarrow> rat \<Rightarrow> jsnum option \<Rightarrow> Kapi" where
  "play k now opt_howManyTimes =
     (let k1 = cancelLoop k;
          k2 = (if playState k1 = PAUSED
                then k1\<lparr>loopTimestamp :=
                       Some (toNumber (loopTimestamp k1) + (now - toNumber (pausedAtTime k1)))\<rparr>
                else k1\<lparr>loopTimestamp := Some now\<rparr>);
          k3 = k2\<lparr>timesToIterate :=
                 (case opt_howManyTimes of
                    None \<Rightarrow> Fin (- 1)
                  | Some n \<Rightarrow> if truthy n then n else Fin (- 1))\<rparr>;
          k4 = k3\<lparr>playState := PLAYING\<rparr>;
          k5 = tick k4
      in fireEvent (fireEvent k5 onPlayStateChange) onPlay)"

definition pause :: "Kapi \<Rightarrow> rat \<Rightarrow> Kapi" where
  "pause k now =
     (if playState k = PAUSED then k
      else let k1 = k\<lparr>playState := PAUSED\<rparr>;
               k2 = cancelLoop k1;
               k3 = k2\<lparr>pausedAtTime := Some now\<rparr>
           in fireEvent (fireEvent k3 onPlayStateChange) onPause)"

definition stop :: "Kapi \<Rightarrow> Kapi" where
  "stop k =
     (let k1 = k\<lparr>playState := STOPPED\<rparr>;
          k2 = cancelLoop k1
      in fireEvent (fireEvent k2 onPlayStateChange) onStop)"

definition updatePlayState :: "Kapi \<Rightarrow> jsnum \<Rightarrow> Kapi" where
  "updatePlayState k currentLoopIteration =
     (if isAnimationComplete k currentLoopIteration
      then fireEvent (stop k) onAnimationComplete
      else k)"

text \<open>A call of one of the three playback methods, with the clock reading of the call.\<close>

datatype playback = Play rat "jsnum option" | Pause rat | Stop

fun playback_call :: "Kapi \<Rightarrow> playback \<Rightarrow> Kapi" where
  "playback_call k (Play now n) = play k now n"
| "playback_call k (Pause now) = pause k now"
| "playback_call k Stop = stop k"

text \<open>The play states the engine goes through in a sequence of calls, the starting state first.\<close>

fun playStates :: "Kapi \<Rightarrow> playback list \<Rightarrow> playState list" where
  "playStates k [] = [playState k]"
| "playStates k (c # cs) = playState k # playStates (playback_call k c) cs"


section \<open>Keyframe properties, actors and the heap\<close>

type_synonym kid = nat
type_synonym pid = nat

text \<open>
  A \<^verbatim>\<open>KeyframeProperty\<close> object. Its id (\<^verbatim>\<open>_.uniqueId\<close>) is its address in the heap below;
  \<open>val\<close> is the field \<^verbatim>\<open>value\<close>, and \<open>nextProperty\<close> is a reference to another object, or null.
\<close>

record 'v KeyframeProperty =
  millisecond :: rat
  name :: string
  val :: 'v
  easing :: string
  nextProperty :: "pid option"

text \<open>
  An actor. A JavaScript object used as a dictionary is an association list in insertion
  order. \<open>kapi\<close> is the back-reference to the engine, absent until the actor is added to
  one. A track is an array of references to keyframe properties; a cache bucket binds a
  track name to such a reference or to null; \<open>keyframeProperties\<close> holds the keys of
  \<^verbatim>\<open>_keyframeProperties\<close>, each bound to the object of that id. The live values of an actor
  belong to Shifty's \<^verbatim>\<open>Tweenable\<close>, which the code reaches through \<^verbatim>\<open>set\<close> only: \<open>lastSet\<close>
  is the argument of the most recent call of \<^verbatim>\<open>set\<close>, if there was one.
\<close>

record 'v Actor =
  kapi :: "kid option"
  propertyTracks :: "(string \<times> pid list) list"
  timelinePropertyCaches :: "(rat \<times> (string \<times> pid option) list) list"
  timelinePropertyCacheIndex :: "rat list"
  keyframeProperties :: "pid list"
  lastSet :: "(string \<times> 'v) list option"

text \<open>
  The heap: the engines, the actors (an actor's id, from \<^verbatim>\<open>getUniqueActorId\<close>, is its
  address) and the keyframe properties, with the two global counters.
\<close>

record 'v world =
  kapis :: "kid \<Rightarrow> Kapi"
  actorObjs :: "aid \<Rightarrow> 'v Actor"
  actorCount :: nat
  propObjs :: "pid \<Rightarrow> 'v KeyframeProperty"
  idCounter :: nat

datatype error = TypeError | ReferenceError

text \<open>A call returns, or throws; the heap a throw leaves behind is kept.\<close>

datatype 'a outcome = Returned 'a | Thrown error 'a

fun state :: "'a outcome \<Rightarrow> 'a" where
  "state (Returned s) = s"
| "state (Thrown e s) = s"

fun returns :: "'a outcome \<Rightarrow> bool" where
  "returns (Returned s) = True"
| "returns (Thrown e s) = False"

fun thrown :: "'a outcome \<Rightarrow> error option" where
  "thrown (Returned s) = None"
| "thrown (Thrown e s) = Some e"

definition andThen :: "'a outcome \<Rightarrow> ('a \<Rightarrow> 'a outcome) \<Rightarrow> 'a outcome" where
  "andThen r f = (case r of Returned s \<Rightarrow> f s | Thrown e s \<Rightarrow> Thrown e s)"

text \<open>Assignment to a property of a dictionary: an existing key keeps its place.\<close>

fun assign :: "'k \<Rightarrow> 'a \<Rightarrow> ('k \<times> 'a) list \<Rightarrow> ('k \<times> 'a) list" where
  "assign k v [] = [(k, v)]"
| "assign k v ((k', v') # kvs) = (if k = k' then (k, v) # kvs else (k', v') # assign k v kvs)"

definition setActor :: "'v world \<Rightarrow> aid \<Rightarrow> 'v Actor \<Rightarrow> 'v world" where
  "setActor w a x = w\<lparr>actorObjs := (actorObjs w)(a := x)\<rparr>"

definition setKapi :: "'v world \<Rightarrow> kid \<Rightarrow> Kapi \<Rightarrow> 'v world" where
  "setKapi w k x = w\<lparr>kapis := (kapis w)(k := x)\<rparr>"

definition msOf :: "'v world \<Rightarrow> pid \<Rightarrow> rat" where
  "msOf w p = millisecond (propObjs w p)"

subsection \<open>KeyframeProperty\<close>

text \<open>The constructor; the id is a fresh one, drawn from the counter of \<^verbatim>\<open>_.uniqueId\<close>.\<close>

definition KeyframeProperty_new ::
  "'v world \<Rightarrow> rat \<Rightarrow> string \<Rightarrow> 'v \<Rightarrow> string \<Rightarrow> pid \<times> 'v world" where
  "KeyframeProperty_new w ms nm v opt_easing =
     (let i = idCounter w + 1
      in (i, w\<lparr>idCounter := i,
               propObjs := (propObjs w)(i :=
                 \<lparr> millisecond = ms, name = nm, val = v,
                   easing = (if opt_easing \<noteq> [] then opt_easing else ''linear''),
                   nextProperty = None \<rparr>)\<rparr>))"

text \<open>The argument of \<^verbatim>\<open>modifyWith\<close>: each of the three fields may be undefined.\<close>

record 'v newProperties =
  new_millisecond :: "rat option"
  new_easing :: "string option"
  new_value :: "'v option"

definition modifyWith :: "'v KeyframeProperty \<Rightarrow> 'v newProperties \<Rightarrow> 'v KeyframeProperty" where
  "modifyWith p n =
     p\<lparr> millisecond := (case new_millisecond n of None \<Rightarrow> millisecond p | Some x \<Rightarrow> x),
        easing := (case new_easing n of None \<Rightarrow> easing p | Some x \<Rightarrow> x),
        val := (case new_value n of None \<Rightarrow> val p | Some x \<Rightarrow> x) \<rparr>"

definition linkToNext :: "'v KeyframeProperty \<Rightarrow> pid option \<Rightarrow> 'v KeyframeProperty" where
  "linkToNext p nxt = p\<lparr>nextProperty := nxt\<rparr>"

text \<open>
  \<open>interpolate n a b f e\<close> stands for
  \<^verbatim>\<open>Tweenable.util.interpolate({n: a}, {n: b}, f, e)[n]\<close>, a function of Shifty.
\<close>

type_synonym 'v interpolate = "string \<Rightarrow> 'v \<Rightarrow> 'v \<Rightarrow> jsnum \<Rightarrow> string \<Rightarrow> 'v"

definition getValueAt :: "'v interpolate \<Rightarrow> 'v world \<Rightarrow> pid \<Rightarrow> jsnum \<Rightarrow> 'v" where
  "getValueAt interpolate w p ms =
     (let this = propObjs w p
      in case nextProperty this of
           Some n \<Rightarrow>
             (let nxt = propObjs w n;
                  delta = millisecond nxt - millisecond this;
                  interpolatedPosition = js_div (js_sub ms (Fin (millisecond this))) (Fin delta)
              in interpolate (name this) (val this) (val nxt) interpolatedPosition (easing nxt))
         | None \<Rightarrow> val this)"

subsection \<open>Actor: tracks and the property cache\<close>

definition setProp :: "'v world \<Rightarrow> pid \<Rightarrow> 'v KeyframeProperty \<Rightarrow> 'v world" where
  "setProp w p x = w\<lparr>propObjs := (propObjs w)(p := x)\<rparr>"

text \<open>
  The constructor. A configuration with a \<^verbatim>\<open>context\<close> makes it evaluate the undeclared
  variable \<^verbatim>\<open>opt_context\<close>, after the id has been drawn.
\<close>

definition Actor_new :: "'v world \<Rightarrow> bool \<Rightarrow> 'v world outcome" where
  "Actor_new w config_has_context =
     (let a = actorCount w;
          w1 = (setActor w a
                 \<lparr> kapi = None, propertyTracks = [], timelinePropertyCaches = [],
                   timelinePropertyCacheIndex = [], keyframeProperties = [],
                   lastSet = None \<rparr>)\<lparr>actorCount := a + 1\<rparr>
      in if config_has_context then Thrown ReferenceError w1 else Returned w1)"

text \<open>\<^verbatim>\<open>_.sortBy\<close> is a stable sort on the criterion.\<close>

definition sortPropertyTracks :: "'v world \<Rightarrow> aid \<Rightarrow> 'v world" where
  "sortPropertyTracks w a =
     (let actor = actorObjs w a
      in setActor w a
           (actor\<lparr>propertyTracks :=
              map (\<lambda>(nm, track). (nm, sort_key (msOf w) track)) (propertyTracks actor)\<rparr>))"

definition getStart :: "'v world \<Rightarrow> aid \<Rightarrow> jsnum" where
  "getStart w a =
     (let starts = concat (map (\<lambda>(nm, propertyTrack).
                      if propertyTrack \<noteq> [] then [msOf w (hd propertyTrack)] else [])
                    (propertyTracks (actorObjs w a)))
      in Math_min (if starts = [] then [0] else starts))"

definition getEnd :: "'v world \<Rightarrow> aid \<Rightarrow> rat" where
  "getEnd w a =
     fold (\<lambda>(nm, propertyTrack) latest.
             if propertyTrack \<noteq> []
             then (let trackLength = msOf w (last propertyTrack)
                   in if trackLength > latest then trackLength else latest)
             else latest)
          (propertyTracks (actorObjs w a)) 0"

text \<open>
  In \<^verbatim>\<open>getLatestPropeties\<close> an entry of \<^verbatim>\<open>latestProperties\<close> is undefined (\<open>None\<close>), null
  (\<open>Some None\<close>) or a keyframe property; only the last is truthy. \<open>findLatest\<close> is the
  \<^verbatim>\<open>_.find\<close> over one track, which stops at the first element for which the callback returns
  true.
\<close>

fun truthyRef :: "pid option option \<Rightarrow> bool" where
  "truthyRef (Some (Some p)) = True"
| "truthyRef r = False"

fun findLatest ::
  "'v world \<Rightarrow> rat \<Rightarrow> pid option \<Rightarrow> pid option option \<Rightarrow> pid list \<Rightarrow> pid option option" where
  "findLatest w forMillisecond previousKeyframeProperty latest [] = latest"
| "findLatest w forMillisecond previousKeyframeProperty latest (p # ps) =
     (let latest' = (if msOf w p > forMillisecond then Some previousKeyframeProperty
                     else if msOf w p = forMillisecond then Some (Some p)
                     else latest)
      in if truthyRef latest' then latest'
         else findLatest w forMillisecond (Some p) latest' ps)"

definition latestInTrack :: "'v world \<Rightarrow> rat \<Rightarrow> pid list \<Rightarrow> pid option option" where
  "latestInTrack w forMillisecond propertyTrack =
     (let latest = findLatest w forMillisecond None None propertyTrack
      in if \<not> truthyRef latest
         then (if propertyTrack \<noteq> [] \<and> msOf w (last propertyTrack) \<le> forMillisecond
               then Some (Some (last propertyTrack)) else latest)
         else latest)"

definition getLatestPropeties :: "'v world \<Rightarrow> aid \<Rightarrow> rat \<Rightarrow> (string \<times> pid option) list" where
  "getLatestPropeties w a forMillisecond =
     fold (\<lambda>(propertyName, propertyTrack) latestProperties.
             case latestInTrack w forMillisecond propertyTrack of
               None \<Rightarrow> latestProperties
             | Some r \<Rightarrow> assign propertyName r latestProperties)
          (propertyTracks (actorObjs w a)) []"

text \<open>\<^verbatim>\<open>_.defaults\<close> of Underscore: a key of the source is copied where the object has none (or null).\<close>

definition defaults ::
  "(string \<times> pid option) list \<Rightarrow> (string \<times> pid option) list \<Rightarrow> (string \<times> pid option) list" where
  "defaults obj source =
     fold (\<lambda>(prop, v) obj. case map_of obj prop of
                               Some (Some p) \<Rightarrow> obj
                             | _ \<Rightarrow> assign prop v obj)
          source obj"

definition cachePropertiesToSegments :: "'v world \<Rightarrow> aid \<Rightarrow> 'v world" where
  "cachePropertiesToSegments w a =
     (let actor = actorObjs w a
      in setActor w a
           (actor\<lparr>timelinePropertyCaches :=
              map (\<lambda>(cacheId, propertyCache).
                     (cacheId, defaults propertyCache (getLatestPropeties w a cacheId)))
                  (timelinePropertyCaches actor)\<rparr>))"

fun linkTrack :: "'v world \<Rightarrow> pid list \<Rightarrow> 'v world" where
  "linkTrack w [] = w"
| "linkTrack w (p # ps) =
     linkTrack (setProp w p (linkToNext (propObjs w p)
                               (case ps of [] \<Rightarrow> None | q # qs \<Rightarrow> Some q))) ps"

definition linkTrackedProperties :: "'v world \<Rightarrow> aid \<Rightarrow> 'v world" where
  "linkTrackedProperties w a =
     fold (\<lambda>(trackName, propertyTrack) w. linkTrack w propertyTrack)
          (propertyTracks (actorObjs w a)) w"

definition sortNumerically :: "rat list \<Rightarrow> rat list" where
  "sortNumerically array = sort array"

text \<open>The first loop of \<^verbatim>\<open>invalidatePropertyCache\<close>: one keyframe property enters its bucket.\<close>

definition cacheProperty ::
  "'v world \<Rightarrow> pid \<Rightarrow> (rat \<times> (string \<times> pid option) list) list
     \<Rightarrow> (rat \<times> (string \<times> pid option) list) list" where
  "cacheProperty w p caches =
     (let keyframeProperty = propObjs w p;
          bucket = (case map_of caches (millisecond keyframeProperty) of
                      None \<Rightarrow> [] | Some b \<Rightarrow> b)
      in assign (millisecond keyframeProperty)
           (assign (name keyframeProperty) (Some p) bucket) caches)"

definition invalidatePropertyCache :: "'v world \<Rightarrow> aid \<Rightarrow> 'v world" where
  "invalidatePropertyCache w a =
     (let actor = actorObjs w a;
          caches = fold (cacheProperty w) (keyframeProperties actor) [];
          w1 = setActor w a
                 (actor\<lparr>timelinePropertyCaches := caches,
                        timelinePropertyCacheIndex := sortNumerically (map fst caches)\<rparr>);
          w2 = cachePropertiesToSegments w1 a
      in linkTrackedProperties w2 a)"

text \<open>The linear search of the cache index, from position 1.\<close>

function cacheIdFrom :: "rat list \<Rightarrow> jsnum \<Rightarrow> nat \<Rightarrow> int" where
  "cacheIdFrom list ms i =
     (if i < length list
      then (if js_ge (Fin (list ! i)) ms then int i - 1 else cacheIdFrom list ms (Suc i))
      else - 1)"
  by pat_completeness auto
termination
  by (relation "measure (\<lambda>(list, ms, i). length list - i)") auto

declare cacheIdFrom.simps [simp del]

definition getPropertyCacheIdForMillisecond :: "'v Actor \<Rightarrow> jsnum \<Rightarrow> int" where
  "getPropertyCacheIdForMillisecond actor ms =
     cacheIdFrom (timelinePropertyCacheIndex actor) ms 1"

text \<open>
  Reading the cache in \<^verbatim>\<open>calculatePosition\<close>: an index outside the array gives undefined,
  and undefined is the key of no bucket.
\<close>

definition propertiesToInterpolate :: "'v Actor \<Rightarrow> int \<Rightarrow> (string \<times> pid option) list option" where
  "propertiesToInterpolate actor latestCacheId =
     (if 0 \<le> latestCacheId \<and> nat latestCacheId < length (timelinePropertyCacheIndex actor)
      then map_of (timelinePropertyCaches actor)
             (timelinePropertyCacheIndex actor ! nat latestCacheId)
      else None)"

definition interpolatedObject ::
  "'v interpolate \<Rightarrow> 'v world \<Rightarrow> (string \<times> pid option) list option \<Rightarrow> jsnum
     \<Rightarrow> (string \<times> 'v) list" where
  "interpolatedObject interpolate w props ms =
     (case props of
        None \<Rightarrow> []
      | Some bucket \<Rightarrow>
          fold (\<lambda>(propName, keyframeProperty) obj.
                  case keyframeProperty of
                    None \<Rightarrow> obj
                  | Some p \<Rightarrow> assign propName (getValueAt interpolate w p ms) obj)
               bucket [])"

definition calculatePosition :: "'v interpolate \<Rightarrow> 'v world \<Rightarrow> aid \<Rightarrow> jsnum \<Rightarrow> 'v world" where
  "calculatePosition interpolate w a ms =
     (let actor = actorObjs w a;
          startMs = getStart w a;
          endMs = getEnd w a
      in if js_le startMs ms \<and> js_le ms (Fin endMs)
         then (let latestCacheId = getPropertyCacheIdForMillisecond actor ms;
                   props = propertiesToInterpolate actor latestCacheId
               in setActor w a (actor\<lparr>lastSet := Some (interpolatedObject interpolate w props ms)\<rparr>))
         else w)"

subsection \<open>Engine: animation length, actors, rendering\<close>

text \<open>\<^verbatim>\<open>_recalculateAnimationLength\<close> of the engine \<open>k\<close>.\<close>

definition recalculateAnimationLength :: "'v world \<Rightarrow> kid \<Rightarrow> 'v world" where
  "recalculateAnimationLength w k =
     (let this = kapis w k;
          actorLengths = map (getEnd w) (actors this)
      in setKapi w k (this\<lparr>animationLength := Math_max actorLengths\<rparr>))"

text \<open>The callbacks \<^verbatim>\<open>setup\<close>, \<^verbatim>\<open>teardown\<close> and \<^verbatim>\<open>render\<close> of an actor do nothing by default and are left out.\<close>

definition addActor :: "'v world \<Rightarrow> kid \<Rightarrow> aid \<Rightarrow> 'v world" where
  "addActor w k a =
     (let this = kapis w k
      in if a \<notin> set (actors this)
         then (let w1 = setActor w a ((actorObjs w a)\<lparr>kapi := Some k\<rparr>)
               in setKapi w1 k (this\<lparr>actors := actors this @ [a],
                                     drawOrder := drawOrder this @ [a]\<rparr>))
         else w)"

definition removeActor :: "'v world \<Rightarrow> kid \<Rightarrow> aid \<Rightarrow> 'v world" where
  "removeActor w k a =
     (let this = kapis w k;
          w1 = setKapi w k (this\<lparr>actors := removeAll a (actors this)\<rparr>);
          w2 = setActor w1 a ((actorObjs w1 a)\<lparr>kapi := None\<rparr>);
          w3 = setKapi w2 k ((kapis w2 k)\<lparr>drawOrder := removeAll a (drawOrder (kapis w2 k))\<rparr>)
      in recalculateAnimationLength w3 k)"

text \<open>
  \<^verbatim>\<open>moveActorToLayer\<close>: the id is taken out of the draw order and spliced in again at
  \<open>layer\<close>; beyond the draw order nothing happens.
\<close>

definition moveActorToLayer :: "'v world \<Rightarrow> kid \<Rightarrow> aid \<Rightarrow> nat \<Rightarrow> 'v world" where
  "moveActorToLayer w k a layer =
     (let this = kapis w k
      in if layer < length (drawOrder this)
         then (let without = removeAll a (drawOrder this)
               in setKapi w k (this\<lparr>drawOrder := take layer without @ [a] @ drop layer without\<rparr>))
         else w)"

text \<open>
  \<^verbatim>\<open>calculateActorPositions\<close>: \<^verbatim>\<open>this._actors[this._drawOrder[i]]\<close> is undefined for an id
  that is no key of \<^verbatim>\<open>_actors\<close>, and the method call on it throws.
\<close>

fun calculatePositions ::
  "'v interpolate \<Rightarrow> 'v world \<Rightarrow> aid list \<Rightarrow> jsnum \<Rightarrow> aid list \<Rightarrow> 'v world outcome" where
  "calculatePositions interpolate w as ms [] = Returned w"
| "calculatePositions interpolate w as ms (d # ds) =
     (if d \<in> set as
      then calculatePositions interpolate (calculatePosition interpolate w d ms) as ms ds
      else Thrown TypeError w)"

definition calculateActorPositions ::
  "'v interpolate \<Rightarrow> 'v world \<Rightarrow> kid \<Rightarrow> jsnum \<Rightarrow> 'v world outcome" where
  "calculateActorPositions interpolate w k ms =
     calculatePositions interpolate w (actors (kapis w k)) ms (drawOrder (kapis w k))"

definition draw :: "'v world \<Rightarrow> kid \<Rightarrow> 'v world outcome" where
  "draw w k =
     (let w1 = setKapi w k (fireEvent (kapis w k) onBeforeDraw);
          this = kapis w1 k
      in if set (drawOrder this) \<subseteq> set (actors this) then Returned w1
         else Thrown TypeError w1)"

definition render :: "'v interpolate \<Rightarrow> 'v world \<Rightarrow> kid \<Rightarrow> jsnum \<Rightarrow> 'v world outcome" where
  "render interpolate w k ms =
     andThen (calculateActorPositions interpolate w k ms) (\<lambda>w1.
     andThen (draw w1 k) (\<lambda>w2.
       Returned (setKapi w2 k
         (fireEvent ((kapis w2 k)\<lparr>lastRenderedMillisecond := ms\<rparr>) onFrameRender))))"

definition renderMillisecond ::
  "'v interpolate \<Rightarrow> 'v world \<Rightarrow> kid \<Rightarrow> jsnum \<Rightarrow> 'v world outcome" where
  "renderMillisecond interpolate w k forMillisecond =
     (let currentIteration = determineCurrentLoopIteration (kapis w k) forMillisecond;
          loopPosition = calculateLoopPosition (kapis w k) forMillisecond currentIteration
      in andThen (render interpolate w k loopPosition) (\<lambda>w1.
           Returned (setKapi w1 k (updatePlayState (kapis w1 k) currentIteration))))"

definition renderCurrentMillisecond ::
  "'v interpolate \<Rightarrow> 'v world \<Rightarrow> kid \<Rightarrow> rat \<Rightarrow> 'v world outcome" where
  "renderCurrentMillisecond interpolate w k now =
     renderMillisecond interpolate w k (Fin (calculateTimeSinceStart (kapis w k) now))"

text \<open>The function that \<open>tick\<close> schedules: it schedules the next tick, then renders.\<close>

definition updateFn :: "'v interpolate \<Rightarrow> 'v world \<Rightarrow> kid \<Rightarrow> rat \<Rightarrow> 'v world outcome" where
  "updateFn interpolate w k now =
     renderCurrentMillisecond interpolate (setKapi w k (tick (kapis w k))) k now"

subsection \<open>Actor: keyframes\<close>

text \<open>The easing argument of \<^verbatim>\<open>keyframe\<close>: absent, a string, or an object of strings.\<close>

datatype easing_arg = no_easing | easing_string string | easing_object "(string \<times> string) list"

text \<open>
  What the two loops at the head of \<^verbatim>\<open>keyframe\<close> leave in \<^verbatim>\<open>opt_easing[positionName]\<close>; the
  empty string is falsy and gives way to the default.
\<close>

definition easingFor :: "easing_arg \<Rightarrow> string \<Rightarrow> string" where
  "easingFor opt_easing positionName =
     (case opt_easing of
        no_easing \<Rightarrow> ''linear''
      | easing_string s \<Rightarrow> (if s \<noteq> [] then s else ''linear'')
      | easing_object obj \<Rightarrow>
          (case map_of obj positionName of
             Some s \<Rightarrow> (if s \<noteq> [] then s else ''linear'')
           | None \<Rightarrow> ''linear''))"

text \<open>The body of the third loop of \<^verbatim>\<open>keyframe\<close>, for one entry of \<^verbatim>\<open>position\<close>.\<close>

definition keyframeEntry ::
  "aid \<Rightarrow> rat \<Rightarrow> easing_arg \<Rightarrow> string \<times> 'v \<Rightarrow> 'v world \<Rightarrow> 'v world" where
  "keyframeEntry a when opt_easing entry w =
     (let (nm, v) = entry;
          (i, w1) = KeyframeProperty_new w when nm v (easingFor opt_easing nm);
          actor = actorObjs w1 a;
          tracks = (if map_of (propertyTracks actor) nm = None
                    then propertyTracks actor @ [(nm, [])] else propertyTracks actor);
          pushed = map (\<lambda>(n, track). (n, if n = nm then track @ [i] else track)) tracks;
          w2 = setActor w1 a (actor\<lparr>keyframeProperties := keyframeProperties actor @ [i],
                                     propertyTracks := pushed\<rparr>)
      in sortPropertyTracks w2 a)"

text \<open>\<^verbatim>\<open>this.kapi._recalculateAnimationLength()\<close> throws when the actor has no \<^verbatim>\<open>kapi\<close>.\<close>

definition recalculateOwner :: "'v world \<Rightarrow> aid \<Rightarrow> 'v world outcome" where
  "recalculateOwner w a =
     (case kapi (actorObjs w a) of
        None \<Rightarrow> Thrown TypeError w
      | Some k \<Rightarrow> Returned (recalculateAnimationLength w k))"

definition keyframe ::
  "'v world \<Rightarrow> aid \<Rightarrow> rat \<Rightarrow> (string \<times> 'v) list \<Rightarrow> easing_arg \<Rightarrow> 'v world outcome" where
  "keyframe w a when position opt_easing =
     andThen (recalculateOwner (fold (keyframeEntry a when opt_easing) position w) a) (\<lambda>w1.
       Returned (invalidatePropertyCache w1 a))"

text \<open>
  \<^verbatim>\<open>modifyKeyframeProperty\<close>; \<open>newProperties\<close> is \<open>None\<close> when the argument is not given, and
  \<^verbatim>\<open>modifyWith\<close> then throws on reading a field of undefined.
\<close>

definition modifyKeyframeProperty ::
  "'v world \<Rightarrow> aid \<Rightarrow> string \<Rightarrow> nat \<Rightarrow> 'v newProperties option \<Rightarrow> 'v world outcome" where
  "modifyKeyframeProperty w a property index newProperties =
     andThen
       (case map_of (propertyTracks (actorObjs w a)) property of
          None \<Rightarrow> Returned w
        | Some track \<Rightarrow>
            if index < length track
            then (case newProperties of
                    None \<Rightarrow> Thrown TypeError w
                  | Some n \<Rightarrow>
                      Returned (setProp w (track ! index)
                                  (modifyWith (propObjs w (track ! index)) n)))
            else Returned w)
       (\<lambda>w1. Returned (invalidatePropertyCache (sortPropertyTracks w1 a) a))"

text \<open>
  The \<^verbatim>\<open>_.find\<close> of \<^verbatim>\<open>removeKeyframe\<close> counts the elements it visits: \<open>scanFor\<close> is the index
  of the first keyframe property at \<open>when\<close>, if there is one.
\<close>

fun scanFor :: "'v world \<Rightarrow> rat \<Rightarrow> pid list \<Rightarrow> nat \<Rightarrow> nat option" where
  "scanFor w when [] i = None"
| "scanFor w when (p # ps) i =
     (if when = msOf w p then Some i else scanFor w when ps (Suc i))"

definition splice1 :: "nat \<Rightarrow> 'a list \<Rightarrow> 'a list" where
  "splice1 i xs = take i xs @ drop (Suc i) xs"

definition removeKeyframe :: "'v world \<Rightarrow> aid \<Rightarrow> rat \<Rightarrow> 'v world outcome" where
  "removeKeyframe w a when =
     (let actor = actorObjs w a;
          removed = concat (map (\<lambda>(propertyName, propertyTrack).
                       case scanFor w when propertyTrack 0 of
                         None \<Rightarrow> [] | Some i \<Rightarrow> [propertyTrack ! i])
                     (propertyTracks actor));
          tracks = map (\<lambda>(propertyName, propertyTrack).
                       (propertyName,
                        case scanFor w when propertyTrack 0 of
                          None \<Rightarrow> propertyTrack | Some i \<Rightarrow> splice1 i propertyTrack))
                     (propertyTracks actor);
          w1 = setActor w a
                 (actor\<lparr>propertyTracks := tracks,
                        keyframeProperties :=
                          filter (\<lambda>p. p \<notin> set removed) (keyframeProperties actor)\<rparr>)
      in andThen (recalculateOwner w1 a) (\<lambda>w2. Returned (invalidatePropertyCache w2 a)))"

subsection \<open>Sequences of calls, and a heap to start from\<close>

text \<open>A call of one of the three keyframe methods of an actor.\<close>

datatype 'v call =
  Keyframe rat "(string \<times> 'v) list" easing_arg
  | RemoveKeyframe rat
  | ModifyKeyframeProperty string nat "'v newProperties option"

fun actor_call :: "'v world \<Rightarrow> aid \<Rightarrow> 'v call \<Rightarrow> 'v world outcome" where
  "actor_call w a (Keyframe when position opt_easing) = keyframe w a when position opt_easing"
| "actor_call w a (RemoveKeyframe when) = removeKeyframe w a when"
| "actor_call w a (ModifyKeyframeProperty property index newProperties) =
     modifyKeyframeProperty w a property index newProperties"

text \<open>
  A sequence of calls on one actor. A caller that catches an exception goes on with the
  heap as the throwing call has left it.
\<close>

fun actor_calls :: "'v world \<Rightarrow> aid \<Rightarrow> 'v call list \<Rightarrow> 'v world" where
  "actor_calls w a [] = w"
| "actor_calls w a (c # cs) = actor_calls (state (actor_call w a c)) a cs"

definition tracksSorted :: "'v world \<Rightarrow> aid \<Rightarrow> bool" where
  "tracksSorted w a =
     list_all (\<lambda>(nm, track). sorted (map (msOf w) track)) (propertyTracks (actorObjs w a))"

text \<open>
  The heap before anything is allocated: every engine address holds what the constructor
  of \<^verbatim>\<open>Kapi\<close> builds; the content of the actor and property addresses is overwritten at
  allocation (\<open>d\<close> fills the values).
\<close>

definition emptyWorld :: "'v \<Rightarrow> 'v world" where
  "emptyWorld d =
     \<lparr> kapis = (\<lambda>k. Kapi_new),
       actorObjs = (\<lambda>a. \<lparr> kapi = None, propertyTracks = [], timelinePropertyCaches = [],
                          timelinePropertyCacheIndex = [], keyframeProperties = [],
                          lastSet = None \<rparr>),
       actorCount = 0,
       propObjs = (\<lambda>p. \<lparr> millisecond = 0, name = [], val = d, easing = [],
                         nextProperty = None \<rparr>),
       idCounter = 0 \<rparr>"

text \<open>
  The behaviour the specification gives to the cache lookup, in its words: the greatest
  index whose key is at most the millisecond, and -1 if no key qualifies.
\<close>

definition greatestIndexAtMost :: "rat list \<Rightarrow> jsnum \<Rightarrow> int" where
  "greatestIndexAtMost list ms =
     (case filter (\<lambda>i. js_le (Fin (list ! i)) ms) (rev [0..<length list]) of
        [] \<Rightarrow> - 1
      | i # is \<Rightarrow> int i)"


subsection \<open>An engine with one actor\<close>

text \<open>
  The heaps that the examples below run on, each built by the calls it names: an engine
  (at address 0) to which a new actor (id 0) has been added; then the actor keyframed at
  0 and at 1000 on the track x, with two different easings; then at 500 on a second track y.
\<close>

definition oneActor :: "rat world" where
  "oneActor = addActor (state (Actor_new (emptyWorld 0) False)) 0 0"

definition oneKey :: "rat world" where
  "oneKey = state (keyframe oneActor 0 0 [(''x'', 0)] (easing_string ''easeInQuad''))"

definition twoKeys :: "rat world" where
  "twoKeys = state (keyframe oneKey 0 1000 [(''x'', 100)] (easing_string ''easeOutQuad''))"

definition threeKeys :: "rat world" where
  "threeKeys = state (keyframe twoKeys 0 500 [(''y'', 7)] no_easing)"

text \<open>
  An interpolation function to run the examples with: linear in the fraction when the
  easing is easeOutQuad, and 0 with any other easing.
\<close>

definition easeOutOnly :: "rat interpolate" where
  "easeOutOnly n a b f e =
     (case f of Fin t \<Rightarrow> (if e = ''easeOutQuad'' then a + (b - a) * t else 0) | _ \<Rightarrow> 0)"


text \<open>The engine of \<open>twoKeys\<close> after \<^verbatim>\<open>play(2)\<close>, called when the clock reads 100.\<close>

definition playingTwice :: "rat world" where
  "playingTwice = setKapi twoKeys 0 (play (kapis twoKeys 0) 100 (Some (Fin 2)))"


text \<open>
  Three more heaps: \<open>twoKeys\<close> after its second keyframe property has been moved to 2000 by
  \<^verbatim>\<open>modifyKeyframeProperty\<close>; \<open>twoKeys\<close> after its actor has been removed and added again;
  and a new actor that has not been added to any engine.
\<close>

definition movedKey :: "rat world" where
  "movedKey = state (modifyKeyframeProperty twoKeys 0 ''x'' 1
       (Some \<lparr>new_millisecond = Some 2000, new_easing = None, new_value = None\<rparr>))"

definition readded :: "rat world" where
  "readded = addActor (removeActor twoKeys 0 0) 0 0"

definition unattached :: "rat world" where
  "unattached = state (Actor_new (emptyWorld 0) False)"


text \<open>
  Five calls on the actor of \<open>oneActor\<close>: two keyframes out of order, the earlier one moved
  past the later, the later one removed, and a keyframe on two tracks.
\<close>

definition fiveCalls :: "rat call list" where
  "fiveCalls =
     [Keyframe 1000 [(''x'', 100)] no_easing, Keyframe 0 [(''x'', 0)] no_easing,
      ModifyKeyframeProperty ''x'' 0
        (Some \<lparr>new_millisecond = Some 2000, new_easing = None, new_value = None\<rparr>),
      RemoveKeyframe 1000, Keyframe 500 [(''x'', 50), (''y'', 1)] no_easing]"


text \<open>
  The engine of \<open>playingTwice\<close> after \<^verbatim>\<open>moveActorToLayer\<close> has been called with a second, new
  actor (id 1) that was never added to it.
\<close>

definition strayLayer :: "rat world" where
  "strayLayer = moveActorToLayer (state (Actor_new playingTwice False)) 0 1 0"


section \<open>Playback\<close>

text \<open>
  C7. When \<^verbatim>\<open>play\<close> is called in the state Paused, the loop-start timestamp grows by
  exactly the paused interval, the clock reading of the call minus the recorded pause
  timestamp (a timestamp that is still null counts as 0), so that the time since start
  read at any moment \<open>t\<close> is the one the engine would have had without the pause, less the
  interval: at the moment of the call it is what it was when the engine was paused.
  Called in any other state, \<^verbatim>\<open>play\<close> resets the timestamp to the clock reading.
\<close>

theorem play_loopTimestamp:
  "(playState k = PAUSED \<longrightarrow>
      loopTimestamp (play k now n)
        = Some (toNumber (loopTimestamp k) + (now - toNumber (pausedAtTime k)))
      \<and> calculateTimeSinceStart (play k now n) t
        = calculateTimeSinceStart k t - (now - toNumber (pausedAtTime k))
      \<and> calculateTimeSinceStart (play k now n) now
        = calculateTimeSinceStart k (toNumber (pausedAtTime k)))
   \<and> (playState k \<noteq> PAUSED \<longrightarrow> loopTimestamp (play k now n) = Some now)"
  by (simp add: play_def Let_def cancelLoop_def tick_def fireEvent_def
        calculateTimeSinceStart_def)

theorem play_loopTimestamp_witness:
  "playState (pause (play Kapi_new 1000 None) 1500) = PAUSED
   \<and> loopTimestamp (pause (play Kapi_new 1000 None) 1500) = Some 1000
   \<and> loopTimestamp (play (pause (play Kapi_new 1000 None) 1500) 1800 None) = Some 1300
   \<and> calculateTimeSinceStart (play (pause (play Kapi_new 1000 None) 1500) 1800 None) 1800 = 500
   \<and> playState (stop Kapi_new) \<noteq> PAUSED
   \<and> loopTimestamp (play (stop Kapi_new) 1800 None) = Some 1800"
  using play_loopTimestamp [of "pause (play Kapi_new 1000 None) 1500" 1800 None 1800]
    play_loopTimestamp [of "stop Kapi_new" 1800 None 0]
  by (simp add: play_def pause_def stop_def Kapi_new_def Let_def cancelLoop_def tick_def
        fireEvent_def calculateTimeSinceStart_def)

text \<open>
  C10, as the specification states it, fails: \<^verbatim>\<open>pause\<close> on the freshly constructed engine,
  which is Stopped, enters Paused at once.
\<close>

theorem pause_from_stopped_counterexample:
  "playState Kapi_new = STOPPED \<and> playState (playback_call Kapi_new (Pause 0)) = PAUSED"
  by (simp add: Kapi_new_def pause_def Let_def cancelLoop_def fireEvent_def)

lemma playState_play: "playState (play k now n) = PLAYING"
  by (simp add: play_def Let_def cancelLoop_def tick_def fireEvent_def)

lemma playState_stop: "playState (stop k) = STOPPED"
  by (simp add: stop_def Let_def cancelLoop_def fireEvent_def)

lemma playState_pause: "playState (pause k now) = PAUSED"
  by (simp add: pause_def Let_def cancelLoop_def fireEvent_def)

lemma enters_paused_by_pause:
  "playState (playback_call k c) = PAUSED \<Longrightarrow> playState k \<noteq> PAUSED \<Longrightarrow> \<exists>now. c = Pause now"
  by (cases c) (simp_all add: playState_play playState_stop)

text \<open>
  C10, amended. In every sequence of \<^verbatim>\<open>play\<close>, \<^verbatim>\<open>pause\<close> and \<^verbatim>\<open>stop\<close> calls, from the initial
  state or any other, the state Paused is only ever entered by a call of \<^verbatim>\<open>pause\<close>, made
  in the state Playing or in the state Stopped.
\<close>

theorem paused_entered_by_pause:
  "i < length cs \<Longrightarrow> playStates k cs ! Suc i = PAUSED \<Longrightarrow> playStates k cs ! i \<noteq> PAUSED
     \<Longrightarrow> (\<exists>now. cs ! i = Pause now)
         \<and> (playStates k cs ! i = PLAYING \<or> playStates k cs ! i = STOPPED)"
proof (induction cs arbitrary: k i)
  case Nil
  then show ?case by simp
next
  case (Cons c cs)
  show ?case
  proof (cases i)
    case 0
    have st: "playStates (playback_call k c) cs ! 0 = playState (playback_call k c)"
      by (cases cs) simp_all
    from Cons.prems 0 st have "playState (playback_call k c) = PAUSED" "playState k \<noteq> PAUSED"
      by simp_all
    then have "\<exists>now. c = Pause now" by (rule enters_paused_by_pause)
    moreover have "playState k = PLAYING \<or> playState k = STOPPED"
      using \<open>playState k \<noteq> PAUSED\<close> by (cases "playState k") simp_all
    ultimately show ?thesis using 0 by auto
  next
    case (Suc j)
    with Cons.prems have "j < length cs"
      "playStates (playback_call k c) cs ! Suc j = PAUSED"
      "playStates (playback_call k c) cs ! j \<noteq> PAUSED"
      by simp_all
    from Cons.IH [OF this] show ?thesis using Suc by simp
  qed
qed

theorem paused_entered_by_pause_witness:
  "(1::nat) < length [Play 0 None, Pause 5]
   \<and> playStates Kapi_new [Play 0 None, Pause 5] ! Suc 1 = PAUSED
   \<and> playStates Kapi_new [Play 0 None, Pause 5] ! 1 \<noteq> PAUSED
   \<and> (\<exists>now. [Play 0 None, Pause 5] ! 1 = Pause now)
   \<and> playStates Kapi_new [Play 0 None, Pause 5] ! 1 = PLAYING"
proof -
  have a: "(1::nat) < length [Play 0 None, Pause 5]" by simp
  have b: "playStates Kapi_new [Play 0 None, Pause 5] ! Suc 1 = PAUSED"
    by (simp add: playState_pause)
  have c: "playStates Kapi_new [Play 0 None, Pause 5] ! 1 \<noteq> PAUSED"
    by (simp add: playState_play)
  from paused_entered_by_pause [OF a b c] a b c show ?thesis
    by (auto simp: playState_play)
qed


section \<open>What each operation leaves alone\<close>

lemma kapis_setActor [simp]: "kapis (setActor w a x) = kapis w"
  and propObjs_setActor [simp]: "propObjs (setActor w a x) = propObjs w"
  and actorObjs_setActor [simp]: "actorObjs (setActor w a x) = (actorObjs w)(a := x)"
  and idCounter_setActor [simp]: "idCounter (setActor w a x) = idCounter w"
  by (simp_all add: setActor_def)

lemma kapis_setKapi [simp]: "kapis (setKapi w k x) = (kapis w)(k := x)"
  and propObjs_setKapi [simp]: "propObjs (setKapi w k x) = propObjs w"
  and actorObjs_setKapi [simp]: "actorObjs (setKapi w k x) = actorObjs w"
  by (simp_all add: setKapi_def)

lemma kapis_setProp [simp]: "kapis (setProp w p x) = kapis w"
  and propObjs_setProp [simp]: "propObjs (setProp w p x) = (propObjs w)(p := x)"
  and actorObjs_setProp [simp]: "actorObjs (setProp w p x) = actorObjs w"
  by (simp_all add: setProp_def)

lemma msOf_setActor [simp]: "msOf (setActor w a x) = msOf w"
  and msOf_setKapi [simp]: "msOf (setKapi w k y) = msOf w"
  by (simp_all add: msOf_def fun_eq_iff)

lemma msOf_linkToNext [simp]: "msOf (setProp w p (linkToNext (propObjs w p) n)) = msOf w"
  by (simp add: msOf_def linkToNext_def fun_eq_iff)

lemma linkTrack_frame [simp]:
  "msOf (linkTrack w t) = msOf w"
  "actorObjs (linkTrack w t) = actorObjs w"
  "kapis (linkTrack w t) = kapis w"
  by (induction t arbitrary: w) simp_all

lemma linkTracks_frame:
  "msOf (fold (\<lambda>(trackName, propertyTrack) w. linkTrack w propertyTrack) ts w) = msOf w"
  "actorObjs (fold (\<lambda>(trackName, propertyTrack) w. linkTrack w propertyTrack) ts w) = actorObjs w"
  "kapis (fold (\<lambda>(trackName, propertyTrack) w. linkTrack w propertyTrack) ts w) = kapis w"
  by (induction ts arbitrary: w) (simp_all add: split_def)

lemma linkTrackedProperties_frame [simp]:
  "msOf (linkTrackedProperties w a) = msOf w"
  "actorObjs (linkTrackedProperties w a) = actorObjs w"
  "kapis (linkTrackedProperties w a) = kapis w"
  by (simp_all add: linkTrackedProperties_def linkTracks_frame)

lemma cachePropertiesToSegments_frame [simp]:
  "msOf (cachePropertiesToSegments w a) = msOf w"
  "kapis (cachePropertiesToSegments w a) = kapis w"
  "propertyTracks (actorObjs (cachePropertiesToSegments w a) b) = propertyTracks (actorObjs w b)"
  "kapi (actorObjs (cachePropertiesToSegments w a) b) = kapi (actorObjs w b)"
  "lastSet (actorObjs (cachePropertiesToSegments w a) b) = lastSet (actorObjs w b)"
  by (simp_all add: cachePropertiesToSegments_def Let_def)

lemma invalidatePropertyCache_frame [simp]:
  "msOf (invalidatePropertyCache w a) = msOf w"
  "kapis (invalidatePropertyCache w a) = kapis w"
  "propertyTracks (actorObjs (invalidatePropertyCache w a) b) = propertyTracks (actorObjs w b)"
  "kapi (actorObjs (invalidatePropertyCache w a) b) = kapi (actorObjs w b)"
  "lastSet (actorObjs (invalidatePropertyCache w a) b) = lastSet (actorObjs w b)"
  by (simp_all add: invalidatePropertyCache_def Let_def)

lemma recalculateAnimationLength_frame [simp]:
  "msOf (recalculateAnimationLength w k) = msOf w"
  "actorObjs (recalculateAnimationLength w k) = actorObjs w"
  by (simp_all add: recalculateAnimationLength_def Let_def)


lemma sortPropertyTracks_frame [simp]:
  "msOf (sortPropertyTracks w a) = msOf w"
  "kapis (sortPropertyTracks w a) = kapis w"
  "kapi (actorObjs (sortPropertyTracks w a) b) = kapi (actorObjs w b)"
  by (simp_all add: sortPropertyTracks_def Let_def)

lemma recalculateAnimationLength_kapi:
  "kapis (recalculateAnimationLength w k) k
     = (kapis w k)\<lparr>animationLength := Math_max (map (getEnd w) (actors (kapis w k)))\<rparr>"
  by (simp add: recalculateAnimationLength_def Let_def)

lemma recalculateAnimationLength_others:
  "actors (kapis (recalculateAnimationLength w k') k) = actors (kapis w k)"
  "drawOrder (kapis (recalculateAnimationLength w k') k) = drawOrder (kapis w k)"
  "playState (kapis (recalculateAnimationLength w k') k) = playState (kapis w k)"
  by (simp_all add: recalculateAnimationLength_def Let_def)

lemma kapis_keyframeEntry [simp]: "kapis (keyframeEntry a when e entry w) = kapis w"
  by (simp add: keyframeEntry_def KeyframeProperty_new_def Let_def split_def)

lemma kapis_keyframeEntries [simp]: "kapis (fold (keyframeEntry a when e) position w) = kapis w"
  by (induction position arbitrary: w) simp_all

lemma state_owner_engine:
  "actors (kapis (state (andThen (recalculateOwner w a)
                           (\<lambda>w1. Returned (invalidatePropertyCache w1 a)))) k)
     = actors (kapis w k)"
  "drawOrder (kapis (state (andThen (recalculateOwner w a)
                              (\<lambda>w1. Returned (invalidatePropertyCache w1 a)))) k)
     = drawOrder (kapis w k)"
  by (simp_all add: recalculateOwner_def andThen_def recalculateAnimationLength_others
        split: option.splits)

lemma kapis_modifyKeyframeProperty:
  "kapis (state (modifyKeyframeProperty w a property index newProperties)) = kapis w"
  by (simp add: modifyKeyframeProperty_def andThen_def split: option.splits)

lemma actor_call_engine:
  "actors (kapis (state (actor_call w a c)) k) = actors (kapis w k)"
  "drawOrder (kapis (state (actor_call w a c)) k) = drawOrder (kapis w k)"
  by (cases c; simp add: keyframe_def removeKeyframe_def Let_def state_owner_engine
        kapis_modifyKeyframeProperty)+

lemma getEnd_cong:
  assumes "msOf w' = msOf w"
    and "propertyTracks (actorObjs w' a) = propertyTracks (actorObjs w a)"
  shows "getEnd w' a = getEnd w a"
  unfolding getEnd_def assms ..

lemma getEnd_invalidatePropertyCache [simp]:
  "getEnd (invalidatePropertyCache w a) = getEnd w"
  by (rule ext, rule getEnd_cong) simp_all

lemma getEnd_recalculateAnimationLength [simp]:
  "getEnd (recalculateAnimationLength w k) = getEnd w"
  by (rule ext, rule getEnd_cong) simp_all

lemma kapi_keyframeEntry [simp]:
  "kapi (actorObjs (keyframeEntry a when e entry w) b) = kapi (actorObjs w b)"
  by (simp add: keyframeEntry_def KeyframeProperty_new_def Let_def split_def)

lemma kapi_keyframeEntries [simp]:
  "kapi (actorObjs (fold (keyframeEntry a when e) position w) b) = kapi (actorObjs w b)"
  by (induction position arbitrary: w) simp_all

section \<open>The example heaps, computed\<close>

lemmas heap_defs = setActor_def setKapi_def setProp_def msOf_def andThen_def Let_def

lemmas cache_defs = invalidatePropertyCache_def cachePropertiesToSegments_def
  linkTrackedProperties_def linkToNext_def cacheProperty_def getLatestPropeties_def
  latestInTrack_def defaults_def sortNumerically_def

lemmas keyframe_defs = keyframe_def keyframeEntry_def KeyframeProperty_new_def easingFor_def
  sortPropertyTracks_def recalculateOwner_def recalculateAnimationLength_def getEnd_def

lemma oneActor_heap:
  "kapis oneActor 0 = Kapi_new\<lparr>actors := [0], drawOrder := [0]\<rparr>"
  "actorObjs oneActor 0 =
     \<lparr> kapi = Some 0, propertyTracks = [], timelinePropertyCaches = [],
       timelinePropertyCacheIndex = [], keyframeProperties = [], lastSet = None \<rparr>"
  "idCounter oneActor = 0"
  by (simp_all add: oneActor_def addActor_def Actor_new_def emptyWorld_def Kapi_new_def
        heap_defs)

lemma oneKey_heap:
  "kapis oneKey 0 = Kapi_new\<lparr>actors := [0], drawOrder := [0], animationLength := Fin 0\<rparr>"
  "actorObjs oneKey 0 =
     \<lparr> kapi = Some 0, propertyTracks = [(''x'', [1])],
       timelinePropertyCaches = [(0, [(''x'', Some 1)])],
       timelinePropertyCacheIndex = [0], keyframeProperties = [1], lastSet = None \<rparr>"
  "propObjs oneKey 1 =
     \<lparr> millisecond = 0, name = ''x'', val = 0, easing = ''easeInQuad'', nextProperty = None \<rparr>"
  "idCounter oneKey = 1"
  by (simp_all add: oneKey_def oneActor_heap keyframe_defs cache_defs heap_defs Kapi_new_def
        del: One_nat_def)

lemma twoKeys_heap:
  "kapis twoKeys 0 = Kapi_new\<lparr>actors := [0], drawOrder := [0], animationLength := Fin 1000\<rparr>"
  "actorObjs twoKeys 0 =
     \<lparr> kapi = Some 0, propertyTracks = [(''x'', [1, 2])],
       timelinePropertyCaches = [(0, [(''x'', Some 1)]), (1000, [(''x'', Some 2)])],
       timelinePropertyCacheIndex = [0, 1000], keyframeProperties = [1, 2], lastSet = None \<rparr>"
  "propObjs twoKeys 1 =
     \<lparr> millisecond = 0, name = ''x'', val = 0, easing = ''easeInQuad'', nextProperty = Some 2 \<rparr>"
  "propObjs twoKeys 2 =
     \<lparr> millisecond = 1000, name = ''x'', val = 100, easing = ''easeOutQuad'',
       nextProperty = None \<rparr>"
  "idCounter twoKeys = 2"
  by (simp_all add: twoKeys_def oneKey_heap keyframe_defs cache_defs heap_defs Kapi_new_def
        del: One_nat_def)

lemma threeKeys_heap:
  "kapis threeKeys 0 = Kapi_new\<lparr>actors := [0], drawOrder := [0], animationLength := Fin 1000\<rparr>"
  "actorObjs threeKeys 0 =
     \<lparr> kapi = Some 0, propertyTracks = [(''x'', [1, 2]), (''y'', [3])],
       timelinePropertyCaches =
         [(0, [(''x'', Some 1), (''y'', None)]),
          (1000, [(''x'', Some 2), (''y'', Some 3)]),
          (500, [(''y'', Some 3), (''x'', Some 1)])],
       timelinePropertyCacheIndex = [0, 500, 1000], keyframeProperties = [1, 2, 3],
       lastSet = None \<rparr>"
  "propObjs threeKeys 1 =
     \<lparr> millisecond = 0, name = ''x'', val = 0, easing = ''easeInQuad'', nextProperty = Some 2 \<rparr>"
  "propObjs threeKeys 2 =
     \<lparr> millisecond = 1000, name = ''x'', val = 100, easing = ''easeOutQuad'',
       nextProperty = None \<rparr>"
  "propObjs threeKeys 3 =
     \<lparr> millisecond = 500, name = ''y'', val = 7, easing = ''linear'', nextProperty = None \<rparr>"
  by (simp_all add: threeKeys_def twoKeys_heap keyframe_defs cache_defs heap_defs Kapi_new_def
        del: One_nat_def)


lemma movedKey_heap:
  "kapis movedKey 0 = Kapi_new\<lparr>actors := [0], drawOrder := [0], animationLength := Fin 1000\<rparr>"
  "propertyTracks (actorObjs movedKey 0) = [(''x'', [1, 2])]"
  "msOf movedKey 1 = 0"
  "msOf movedKey 2 = 2000"
  by (simp_all add: movedKey_def modifyKeyframeProperty_def modifyWith_def twoKeys_heap
        sortPropertyTracks_def cache_defs heap_defs del: One_nat_def)


lemma readded_heap:
  "kapis readded 0 = Kapi_new\<lparr>actors := [0], drawOrder := [0], animationLength := NegInf\<rparr>"
  "propertyTracks (actorObjs readded 0) = [(''x'', [1, 2])]"
  "msOf readded 1 = 0"
  "msOf readded 2 = 1000"
  by (simp_all add: readded_def addActor_def removeActor_def recalculateAnimationLength_def
        twoKeys_heap heap_defs Kapi_new_def del: One_nat_def)

lemma unattached_heap:
  "kapi (actorObjs unattached 0) = None"
  "propertyTracks (actorObjs unattached 0) = []"
  by (simp_all add: unattached_def Actor_new_def emptyWorld_def heap_defs)

section \<open>Interpolation between two keyframe properties\<close>

text \<open>
  The successor that \<^verbatim>\<open>getValueAt\<close> reads is the link that the last rebuild of the cache
  has set: in an actor whose tracks share no keyframe property, the next element of the
  track, and null for the last one.
\<close>

lemma linkTrack_other: "p \<notin> set t \<Longrightarrow> propObjs (linkTrack w t) p = propObjs w p"
  by (induction t arbitrary: w) auto

lemma linkTrack_next:
  "distinct t \<Longrightarrow> i < length t \<Longrightarrow>
     nextProperty (propObjs (linkTrack w t) (t ! i))
       = (if Suc i < length t then Some (t ! Suc i) else None)"
proof (induction t arbitrary: w i)
  case Nil
  then show ?case by simp
next
  case (Cons p ps)
  show ?case
  proof (cases i)
    case 0
    with Cons.prems show ?thesis
      by (cases ps) (simp_all add: linkTrack_other linkToNext_def)
  next
    case (Suc j)
    with Cons.prems Cons.IH [of j] show ?thesis by simp
  qed
qed


lemma linkTracks_other:
  "p \<notin> set (concat (map snd ts)) \<Longrightarrow>
     propObjs (fold (\<lambda>(trackName, propertyTrack) w. linkTrack w propertyTrack) ts w) p
       = propObjs w p"
  by (induction ts arbitrary: w) (auto simp: linkTrack_other)

lemma linkTracks_next:
  "distinct (concat (map snd ts)) \<Longrightarrow> (nm, t) \<in> set ts \<Longrightarrow> i < length t \<Longrightarrow>
     nextProperty
       (propObjs (fold (\<lambda>(trackName, propertyTrack) w. linkTrack w propertyTrack) ts w) (t ! i))
       = (if Suc i < length t then Some (t ! Suc i) else None)"
proof (induction ts arbitrary: w)
  case Nil
  then show ?case by simp
next
  case (Cons nt ts)
  obtain n0 t0 where nt: "nt = (n0, t0)" by (cases nt)
  from Cons.prems(1) nt have d: "distinct t0" "distinct (concat (map snd ts))"
    "set t0 \<inter> set (concat (map snd ts)) = {}"
    by simp_all
  show ?case
  proof (cases "(nm, t) \<in> set ts")
    case True
    from Cons.IH [OF d(2) True Cons.prems(3)] show ?thesis by (simp add: nt)
  next
    case False
    with Cons.prems(2) nt have t: "t = t0" by simp
    with Cons.prems(3) have "t ! i \<in> set t0" by simp
    with d(3) have "t ! i \<notin> set (concat (map snd ts))" by blast
    then show ?thesis
      using linkTrack_next [OF d(1), of i w] Cons.prems(3) t
      by (simp add: nt linkTracks_other)
  qed
qed

lemma propObjs_cachePropertiesToSegments [simp]:
  "propObjs (cachePropertiesToSegments w a) = propObjs w"
  by (simp add: cachePropertiesToSegments_def Let_def)

lemma linkTrackedProperties_next:
  assumes "distinct (concat (map snd (propertyTracks (actorObjs w a))))"
    and "(nm, t) \<in> set (propertyTracks (actorObjs w a))" and "i < length t"
  shows "nextProperty (propObjs (linkTrackedProperties w a) (t ! i))
           = (if Suc i < length t then Some (t ! Suc i) else None)"
  using linkTracks_next [OF assms, of w] by (simp add: linkTrackedProperties_def)

lemma successor_after_invalidatePropertyCache:
  assumes "distinct (concat (map snd (propertyTracks (actorObjs w a))))"
    and "(nm, t) \<in> set (propertyTracks (actorObjs w a))" and "i < length t"
  shows "nextProperty (propObjs (invalidatePropertyCache w a) (t ! i))
           = (if Suc i < length t then Some (t ! Suc i) else None)"
proof -
  have "\<exists>w2. invalidatePropertyCache w a = linkTrackedProperties w2 a
          \<and> propertyTracks (actorObjs w2 a) = propertyTracks (actorObjs w a)"
    unfolding invalidatePropertyCache_def Let_def
    by (rule exI, rule conjI, rule refl) simp
  then obtain w2 where w2: "invalidatePropertyCache w a = linkTrackedProperties w2 a"
    "propertyTracks (actorObjs w2 a) = propertyTracks (actorObjs w a)"
    by blast
  from assms show ?thesis
    unfolding w2(1) w2(2) [symmetric] by (rule linkTrackedProperties_next)
qed

text \<open>
  C2. A keyframe property without a linked successor returns its own value at every
  millisecond. With a successor \<open>s\<close> it returns the interpolation, by Shifty's function,
  from its value to the value of \<open>s\<close> at the fraction
  \<^verbatim>\<open>(millisecond - this.millisecond) / (s.millisecond - this.millisecond)\<close>, with the easing
  of \<open>s\<close> and not its own; for a finite millisecond and two different keyframe times the
  fraction is that quotient of rationals.
\<close>

theorem getValueAt_successor:
  "(nextProperty (propObjs w p) = None \<longrightarrow> getValueAt interpolate w p ms = val (propObjs w p))
   \<and> (\<forall>s. nextProperty (propObjs w p) = Some s \<longrightarrow>
        getValueAt interpolate w p ms
          = interpolate (name (propObjs w p)) (val (propObjs w p)) (val (propObjs w s))
              (js_div (js_sub ms (Fin (msOf w p))) (Fin (msOf w s - msOf w p)))
              (easing (propObjs w s)))
   \<and> (\<forall>s q. nextProperty (propObjs w p) = Some s \<longrightarrow> ms = Fin q \<longrightarrow> msOf w s \<noteq> msOf w p \<longrightarrow>
        getValueAt interpolate w p ms
          = interpolate (name (propObjs w p)) (val (propObjs w p)) (val (propObjs w s))
              (Fin ((q - msOf w p) / (msOf w s - msOf w p)))
              (easing (propObjs w s)))"
  by (simp add: getValueAt_def Let_def msOf_def)

theorem getValueAt_successor_witness:
  "nextProperty (propObjs twoKeys 2) = None
   \<and> getValueAt easeOutOnly twoKeys 2 (Fin 250) = 100
   \<and> nextProperty (propObjs twoKeys 1) = Some 2
   \<and> msOf twoKeys 2 \<noteq> msOf twoKeys 1
   \<and> easing (propObjs twoKeys 1) = ''easeInQuad''
   \<and> easing (propObjs twoKeys 2) = ''easeOutQuad''
   \<and> getValueAt easeOutOnly twoKeys 1 (Fin 250) = 25"
  using getValueAt_successor [of twoKeys 2 easeOutOnly "Fin 250"]
    getValueAt_successor [of twoKeys 1 easeOutOnly "Fin 250"]
  by (simp add: twoKeys_heap msOf_def easeOutOnly_def del: One_nat_def)


section \<open>Positions outside and inside an actor's time span\<close>

text \<open>
  C8. For a millisecond outside the closed interval from \<^verbatim>\<open>getStart()\<close> to \<^verbatim>\<open>getEnd()\<close>,
  \<^verbatim>\<open>calculatePosition\<close> changes nothing: not the actor's live values (no call of \<^verbatim>\<open>set\<close>), nor
  anything else in the heap.
\<close>

theorem calculatePosition_outside:
  "\<not> (js_le (getStart w a) ms \<and> js_le ms (Fin (getEnd w a)))
     \<Longrightarrow> calculatePosition interpolate w a ms = w"
  by (auto simp: calculatePosition_def Let_def)

theorem calculatePosition_outside_witness:
  "\<not> (js_le (getStart twoKeys 0) (Fin 1001) \<and> js_le (Fin 1001) (Fin (getEnd twoKeys 0)))
   \<and> calculatePosition easeOutOnly twoKeys 0 (Fin 1001) = twoKeys
   \<and> \<not> (js_le (getStart twoKeys 0) NaN \<and> js_le NaN (Fin (getEnd twoKeys 0)))
   \<and> calculatePosition easeOutOnly twoKeys 0 NaN = twoKeys"
  using calculatePosition_outside [of twoKeys 0 "Fin 1001" easeOutOnly]
    calculatePosition_outside [of twoKeys 0 NaN easeOutOnly]
  by (simp add: getStart_def getEnd_def twoKeys_heap msOf_def del: One_nat_def)


text \<open>A rebuild of the cache leaves the cache index strictly ascending.\<close>

lemma keys_assign:
  "map fst (assign k v kvs) = (if k \<in> set (map fst kvs) then map fst kvs else map fst kvs @ [k])"
  by (induction kvs) force+

lemma distinct_keys_assign: "distinct (map fst kvs) \<Longrightarrow> distinct (map fst (assign k v kvs))"
  by (simp add: keys_assign)

lemma distinct_keys_cacheProperty:
  "distinct (map fst caches) \<Longrightarrow> distinct (map fst (cacheProperty w p caches))"
  by (simp add: cacheProperty_def Let_def distinct_keys_assign)

lemma distinct_keys_caches:
  "distinct (map fst caches) \<Longrightarrow> distinct (map fst (fold (cacheProperty w) ps caches))"
  by (induction ps arbitrary: caches) (simp_all add: distinct_keys_cacheProperty)

lemma cacheIndex_cachePropertiesToSegments [simp]:
  "timelinePropertyCacheIndex (actorObjs (cachePropertiesToSegments w a) b)
     = timelinePropertyCacheIndex (actorObjs w b)"
  by (simp add: cachePropertiesToSegments_def Let_def)

lemma cacheIndex_invalidatePropertyCache:
  "timelinePropertyCacheIndex (actorObjs (invalidatePropertyCache w a) a)
     = sort (map fst (fold (cacheProperty w) (keyframeProperties (actorObjs w a)) []))"
  by (simp add: invalidatePropertyCache_def Let_def sortNumerically_def)

lemma cacheIndex_strictly_sorted:
  "sorted_wrt (<) (timelinePropertyCacheIndex (actorObjs (invalidatePropertyCache w a) a))"
  by (simp add: cacheIndex_invalidatePropertyCache strict_sorted_iff distinct_keys_caches)

lemma cacheIdFrom_char:
  "1 \<le> i \<Longrightarrow>
     (cacheIdFrom list ms i = - 1
        \<and> (\<forall>j. i \<le> j \<and> j < length list \<longrightarrow> \<not> js_ge (Fin (list ! j)) ms))
     \<or> (\<exists>n. cacheIdFrom list ms i = int n - 1 \<and> i \<le> n \<and> n < length list
            \<and> js_ge (Fin (list ! n)) ms
            \<and> (\<forall>j. i \<le> j \<and> j < n \<longrightarrow> \<not> js_ge (Fin (list ! j)) ms))"
proof (induction list ms i rule: cacheIdFrom.induct)
  case (1 list ms i)
  show ?case
  proof (cases "i < length list")
    case False
    then have "cacheIdFrom list ms i = - 1"
      by (simp add: cacheIdFrom.simps [of list ms i])
    moreover have "\<forall>j. i \<le> j \<and> j < length list \<longrightarrow> \<not> js_ge (Fin (list ! j)) ms"
      using False by auto
    ultimately show ?thesis by blast
  next
    case inside: True
    show ?thesis
    proof (cases "js_ge (Fin (list ! i)) ms")
      case True
      with inside have "cacheIdFrom list ms i = int i - 1"
        by (simp add: cacheIdFrom.simps [of list ms i])
      moreover have "\<forall>j. i \<le> j \<and> j < i \<longrightarrow> \<not> js_ge (Fin (list ! j)) ms" by auto
      ultimately show ?thesis using True inside by blast
    next
      case False
      with inside have eq: "cacheIdFrom list ms i = cacheIdFrom list ms (Suc i)"
        by (simp add: cacheIdFrom.simps [of list ms i])
      from "1.IH" [OF inside False] have
        "(cacheIdFrom list ms (Suc i) = - 1
            \<and> (\<forall>j. Suc i \<le> j \<and> j < length list \<longrightarrow> \<not> js_ge (Fin (list ! j)) ms))
         \<or> (\<exists>n. cacheIdFrom list ms (Suc i) = int n - 1 \<and> Suc i \<le> n \<and> n < length list
              \<and> js_ge (Fin (list ! n)) ms
              \<and> (\<forall>j. Suc i \<le> j \<and> j < n \<longrightarrow> \<not> js_ge (Fin (list ! j)) ms))"
        by simp
      then show ?thesis
      proof
        assume a: "cacheIdFrom list ms (Suc i) = - 1
            \<and> (\<forall>j. Suc i \<le> j \<and> j < length list \<longrightarrow> \<not> js_ge (Fin (list ! j)) ms)"
        have "\<forall>j. i \<le> j \<and> j < length list \<longrightarrow> \<not> js_ge (Fin (list ! j)) ms"
        proof (intro allI impI)
          fix j assume "i \<le> j \<and> j < length list"
          then show "\<not> js_ge (Fin (list ! j)) ms"
            using a False by (cases "j = i") auto
        qed
        with a eq show ?thesis by (intro disjI1) simp
      next
        assume "\<exists>n. cacheIdFrom list ms (Suc i) = int n - 1 \<and> Suc i \<le> n \<and> n < length list
              \<and> js_ge (Fin (list ! n)) ms
              \<and> (\<forall>j. Suc i \<le> j \<and> j < n \<longrightarrow> \<not> js_ge (Fin (list ! j)) ms)"
        then obtain n where n: "cacheIdFrom list ms (Suc i) = int n - 1" "Suc i \<le> n"
          "n < length list" "js_ge (Fin (list ! n)) ms"
          "\<forall>j. Suc i \<le> j \<and> j < n \<longrightarrow> \<not> js_ge (Fin (list ! j)) ms"
          by blast
        have "\<forall>j. i \<le> j \<and> j < n \<longrightarrow> \<not> js_ge (Fin (list ! j)) ms"
        proof (intro allI impI)
          fix j assume "i \<le> j \<and> j < n"
          then show "\<not> js_ge (Fin (list ! j)) ms"
            using n(5) False by (cases "j = i") auto
        qed
        with n eq show ?thesis by (intro disjI2 exI [of _ n]) simp
      qed
    qed
  qed
qed

lemma filter_rev_upt_greatest:
  "r < n \<Longrightarrow> P r \<Longrightarrow> (\<forall>j. r < j \<and> j < n \<longrightarrow> \<not> P j)
     \<Longrightarrow> filter P (rev [0..<n]) = r # filter P (rev [0..<r])"
proof (induction n)
  case 0
  then show ?case by simp
next
  case (Suc n)
  show ?case
  proof (cases "r = n")
    case True
    with Suc.prems show ?thesis by simp
  next
    case False
    with Suc.prems have "r < n" "\<not> P n" "\<forall>j. r < j \<and> j < n \<longrightarrow> \<not> P j" by auto
    with Suc.IH Suc.prems(2) show ?thesis by simp
  qed
qed

lemma greatestIndexAtMost_eq:
  "r < length list \<Longrightarrow> js_le (Fin (list ! r)) ms
     \<Longrightarrow> (\<forall>j. r < j \<and> j < length list \<longrightarrow> \<not> js_le (Fin (list ! j)) ms)
     \<Longrightarrow> greatestIndexAtMost list ms = int r"
  using filter_rev_upt_greatest [of r "length list" "\<lambda>i. js_le (Fin (list ! i)) ms"]
  by (simp add: greatestIndexAtMost_def)


lemma js_ge_Fin [simp]: "js_ge (Fin x) (Fin q) = (q \<le> x)"
  by (simp add: js_ge_def)

lemma lookup_char:
  "(getPropertyCacheIdForMillisecond actor ms = - 1
      \<and> (\<forall>j. 1 \<le> j \<and> j < length (timelinePropertyCacheIndex actor)
             \<longrightarrow> \<not> js_ge (Fin (timelinePropertyCacheIndex actor ! j)) ms))
   \<or> (\<exists>n. getPropertyCacheIdForMillisecond actor ms = int n - 1 \<and> 1 \<le> n
          \<and> n < length (timelinePropertyCacheIndex actor)
          \<and> js_ge (Fin (timelinePropertyCacheIndex actor ! n)) ms
          \<and> (\<forall>j. 1 \<le> j \<and> j < n \<longrightarrow> \<not> js_ge (Fin (timelinePropertyCacheIndex actor ! j)) ms))"
  unfolding getPropertyCacheIdForMillisecond_def
  by (rule cacheIdFrom_char) simp

lemma lookup_minus_one:
  "(getPropertyCacheIdForMillisecond actor ms = - 1)
     = (\<forall>j. 1 \<le> j \<and> j < length (timelinePropertyCacheIndex actor)
             \<longrightarrow> \<not> js_ge (Fin (timelinePropertyCacheIndex actor ! j)) ms)"
proof -
  have "int n - 1 \<noteq> - 1" if "1 \<le> n" for n :: nat using that by simp
  with lookup_char [of actor ms] show ?thesis by (metis le_refl)
qed

lemma lookup_least:
  assumes "getPropertyCacheIdForMillisecond actor ms \<noteq> - 1"
  shows "\<exists>n. getPropertyCacheIdForMillisecond actor ms = int n - 1 \<and> 1 \<le> n
          \<and> n < length (timelinePropertyCacheIndex actor)
          \<and> js_ge (Fin (timelinePropertyCacheIndex actor ! n)) ms
          \<and> (\<forall>j. 1 \<le> j \<and> j < n \<longrightarrow> \<not> js_ge (Fin (timelinePropertyCacheIndex actor ! j)) ms)"
  using lookup_char [of actor ms] assms by blast

lemma lookup_between_keys:
  assumes srt: "sorted (timelinePropertyCacheIndex actor)"
    and found: "getPropertyCacheIdForMillisecond actor (Fin q) \<noteq> - 1"
    and first: "timelinePropertyCacheIndex actor ! 0 \<le> q"
    and nokey: "q \<notin> set (tl (timelinePropertyCacheIndex actor))"
  shows "getPropertyCacheIdForMillisecond actor (Fin q)
           = greatestIndexAtMost (timelinePropertyCacheIndex actor) (Fin q)"
proof -
  let ?list = "timelinePropertyCacheIndex actor"
  from lookup_least [OF found] obtain n where n:
    "getPropertyCacheIdForMillisecond actor (Fin q) = int n - 1" "1 \<le> n" "n < length ?list"
    "q \<le> ?list ! n" "\<forall>j. 1 \<le> j \<and> j < n \<longrightarrow> \<not> q \<le> ?list ! j"
    by auto
  have "?list ! n = tl ?list ! (n - 1)" using n(2,3) by (simp add: nth_tl)
  moreover have "n - 1 < length (tl ?list)" using n(2,3) by simp
  ultimately have "?list ! n \<in> set (tl ?list)" by (metis nth_mem)
  with nokey n(4) have above: "q < ?list ! n" by (cases "q = ?list ! n") auto
  have below: "?list ! (n - 1) \<le> q"
  proof (cases "n = 1")
    case True
    with first show ?thesis by simp
  next
    case False
    with n(2) have "1 \<le> n - 1 \<and> n - 1 < n" by simp
    with n(5) show ?thesis by (meson linorder_not_le order_less_imp_le)
  qed
  have rest: "\<forall>j. n - 1 < j \<and> j < length ?list \<longrightarrow> \<not> js_le (Fin (?list ! j)) (Fin q)"
  proof (intro allI impI)
    fix j assume j: "n - 1 < j \<and> j < length ?list"
    then have "n \<le> j" using n(2) by arith
    with srt j have "?list ! n \<le> ?list ! j" by (simp add: sorted_nth_mono)
    with above show "\<not> js_le (Fin (?list ! j)) (Fin q)" by simp
  qed
  have "greatestIndexAtMost ?list (Fin q) = int (n - 1)"
    using n(3) below rest by (intro greatestIndexAtMost_eq) simp_all
  with n(1,2) show ?thesis by simp
qed

text \<open>
  At a keyframe time other than the first the lookup returns the index before the one of
  that time: the bucket built for the keyframe's own time is passed over, and the bucket
  of the last key is never selected. In the actor of \<open>threeKeys\<close> the track y has its only
  keyframe property at 500, in the bucket of 500; \<^verbatim>\<open>calculatePosition(500)\<close> reads the
  bucket of 0 and sets x without y. This is a defect of the code; the amended claim
  on the lookup, further down, is about the other milliseconds and says nothing about these.
\<close>

lemma lookup_at_key:
  assumes srt: "sorted_wrt (<) (timelinePropertyCacheIndex actor)"
    and j: "1 \<le> j" "j < length (timelinePropertyCacheIndex actor)"
  shows "getPropertyCacheIdForMillisecond actor (Fin (timelinePropertyCacheIndex actor ! j))
           = int j - 1"
proof -
  let ?list = "timelinePropertyCacheIndex actor"
  have "getPropertyCacheIdForMillisecond actor (Fin (?list ! j)) \<noteq> - 1"
    unfolding lookup_minus_one using j by auto
  from lookup_least [OF this] obtain n where n:
    "getPropertyCacheIdForMillisecond actor (Fin (?list ! j)) = int n - 1" "1 \<le> n"
    "n < length ?list" "?list ! j \<le> ?list ! n"
    "\<forall>i. 1 \<le> i \<and> i < n \<longrightarrow> \<not> ?list ! j \<le> ?list ! i"
    by auto
  have "\<not> j < n" using n(5) j(1) by auto
  moreover have "\<not> n < j"
  proof
    assume "n < j"
    with srt j(2) have "?list ! n < ?list ! j" by (simp add: sorted_wrt_nth_less)
    with n(4) show False by simp
  qed
  ultimately have "n = j" by simp
  with n(1) show ?thesis by simp
qed

lemma lookup_at_keyframe_defect:
  "timelinePropertyCacheIndex (actorObjs threeKeys 0) = [0, 500, 1000]
   \<and> map_of (timelinePropertyCaches (actorObjs threeKeys 0)) 500
       = Some [(''y'', Some 3), (''x'', Some 1)]
   \<and> getPropertyCacheIdForMillisecond (actorObjs threeKeys 0) (Fin 500) = 0
   \<and> lastSet (actorObjs (calculatePosition easeOutOnly threeKeys 0 (Fin 500)) 0)
       = Some [(''x'', 50)]"
proof -
  have idx: "timelinePropertyCacheIndex (actorObjs threeKeys 0) = [0, 500, 1000]"
    by (simp add: threeKeys_heap)
  have bucket: "map_of (timelinePropertyCaches (actorObjs threeKeys 0)) 500
       = Some [(''y'', Some 3), (''x'', Some 1)]"
    by (simp add: threeKeys_heap)
  have r: "getPropertyCacheIdForMillisecond (actorObjs threeKeys 0) (Fin 500) = 0"
    by (simp add: getPropertyCacheIdForMillisecond_def idx cacheIdFrom.simps)
  have span: "getStart threeKeys 0 = Fin 0" "getEnd threeKeys 0 = 1000"
    by (simp_all add: getStart_def getEnd_def threeKeys_heap msOf_def del: One_nat_def)
  have props: "propertiesToInterpolate (actorObjs threeKeys 0) 0
                 = Some [(''x'', Some 1), (''y'', None)]"
    by (simp add: propertiesToInterpolate_def threeKeys_heap)
  have v: "getValueAt easeOutOnly threeKeys 1 (Fin 500) = 50"
    by (simp add: getValueAt_def threeKeys_heap easeOutOnly_def Let_def del: One_nat_def)
  have "lastSet (actorObjs (calculatePosition easeOutOnly threeKeys 0 (Fin 500)) 0)
       = Some [(''x'', 50)]"
    by (simp add: calculatePosition_def Let_def span r props v interpolatedObject_def
          del: One_nat_def)
  with idx bucket r show ?thesis by simp
qed

lemma no_bucket_no_update:
  assumes "getPropertyCacheIdForMillisecond (actorObjs w a) ms = - 1"
    and "js_le (getStart w a) ms" "js_le ms (Fin (getEnd w a))"
  shows "lastSet (actorObjs (calculatePosition interpolate w a ms) a) = Some []"
  using assms
  by (simp add: calculatePosition_def Let_def propertiesToInterpolate_def
        interpolatedObject_def)

text \<open>
  C3, as the specification states it, fails. The only cache key of the actor of \<open>oneKey\<close>
  is 0; for the millisecond 0, which is the actor's start and its end, the lookup returns
  -1, although the key 0 is at most 0 and the greatest index of such a key is 0.
\<close>

theorem lookup_single_key_counterexample:
  "js_le (getStart oneKey 0) (Fin 0) \<and> js_le (Fin 0) (Fin (getEnd oneKey 0))
   \<and> timelinePropertyCacheIndex (actorObjs oneKey 0) = [0]
   \<and> getPropertyCacheIdForMillisecond (actorObjs oneKey 0) (Fin 0) = - 1
   \<and> greatestIndexAtMost (timelinePropertyCacheIndex (actorObjs oneKey 0)) (Fin 0) = 0"
  by (simp add: getStart_def getEnd_def oneKey_heap msOf_def
        getPropertyCacheIdForMillisecond_def cacheIdFrom.simps greatestIndexAtMost_def
        upt_rec del: One_nat_def)

text \<open>
  C3, amended. The lookup of the cache index returns -1 exactly when no key at a position
  \<open>\<ge> 1\<close> is at least the millisecond, so always when the index has fewer than two keys.
  On an index sorted ascending, for a millisecond that is not below the first key and is
  not itself a key at a position \<open>\<ge> 1\<close>, a result other than -1 is the greatest index
  whose key is at most the millisecond. When -1 is returned for a millisecond within the
  actor's time span, no property is interpolated: \<^verbatim>\<open>set\<close> receives the empty object.
\<close>

theorem cache_lookup:
  "(getPropertyCacheIdForMillisecond actor ms = - 1
      \<longleftrightarrow> (\<forall>j. 1 \<le> j \<and> j < length (timelinePropertyCacheIndex actor)
             \<longrightarrow> \<not> js_ge (Fin (timelinePropertyCacheIndex actor ! j)) ms))
   \<and> (length (timelinePropertyCacheIndex actor) \<le> 1
          \<longrightarrow> getPropertyCacheIdForMillisecond actor ms = - 1)
   \<and> (\<forall>q. sorted (timelinePropertyCacheIndex actor) \<longrightarrow> ms = Fin q
          \<longrightarrow> getPropertyCacheIdForMillisecond actor ms \<noteq> - 1
          \<longrightarrow> timelinePropertyCacheIndex actor ! 0 \<le> q
          \<longrightarrow> q \<notin> set (tl (timelinePropertyCacheIndex actor))
          \<longrightarrow> getPropertyCacheIdForMillisecond actor ms
                = greatestIndexAtMost (timelinePropertyCacheIndex actor) ms)
   \<and> (\<forall>w a interpolate. actorObjs w a = actor
          \<longrightarrow> getPropertyCacheIdForMillisecond actor ms = - 1
          \<longrightarrow> js_le (getStart w a) ms \<longrightarrow> js_le ms (Fin (getEnd w a))
          \<longrightarrow> lastSet (actorObjs (calculatePosition interpolate w a ms) a) = Some [])"
proof (intro conjI allI impI)
  show "(getPropertyCacheIdForMillisecond actor ms = - 1)
     = (\<forall>j. 1 \<le> j \<and> j < length (timelinePropertyCacheIndex actor)
             \<longrightarrow> \<not> js_ge (Fin (timelinePropertyCacheIndex actor ! j)) ms)"
    by (rule lookup_minus_one)
next
  assume "length (timelinePropertyCacheIndex actor) \<le> 1"
  then show "getPropertyCacheIdForMillisecond actor ms = - 1"
    unfolding lookup_minus_one by auto
next
  fix q
  assume "sorted (timelinePropertyCacheIndex actor)" "ms = Fin q"
    "getPropertyCacheIdForMillisecond actor ms \<noteq> - 1"
    "timelinePropertyCacheIndex actor ! 0 \<le> q"
    "q \<notin> set (tl (timelinePropertyCacheIndex actor))"
  then show "getPropertyCacheIdForMillisecond actor ms
                = greatestIndexAtMost (timelinePropertyCacheIndex actor) ms"
    using lookup_between_keys [of actor q] by simp
next
  fix w :: "'a world" and a interpolate
  assume "actorObjs w a = actor" "getPropertyCacheIdForMillisecond actor ms = - 1"
    "js_le (getStart w a) ms" "js_le ms (Fin (getEnd w a))"
  then show "lastSet (actorObjs (calculatePosition interpolate w a ms) a) = Some []"
    using no_bucket_no_update [of w a ms interpolate] by simp
qed

theorem cache_lookup_witness:
  "sorted (timelinePropertyCacheIndex (actorObjs threeKeys 0))
   \<and> timelinePropertyCacheIndex (actorObjs threeKeys 0) ! 0 \<le> 250
   \<and> 250 \<notin> set (tl (timelinePropertyCacheIndex (actorObjs threeKeys 0)))
   \<and> getPropertyCacheIdForMillisecond (actorObjs threeKeys 0) (Fin 250) = 0
   \<and> greatestIndexAtMost (timelinePropertyCacheIndex (actorObjs threeKeys 0)) (Fin 250) = 0
   \<and> sorted (timelinePropertyCacheIndex (actorObjs threeKeys 0))
   \<and> 750 \<notin> set (tl (timelinePropertyCacheIndex (actorObjs threeKeys 0)))
   \<and> getPropertyCacheIdForMillisecond (actorObjs threeKeys 0) (Fin 750) = 1
   \<and> greatestIndexAtMost (timelinePropertyCacheIndex (actorObjs threeKeys 0)) (Fin 750) = 1
   \<and> length (timelinePropertyCacheIndex (actorObjs oneKey 0)) \<le> 1
   \<and> getPropertyCacheIdForMillisecond (actorObjs oneKey 0) (Fin 0) = - 1
   \<and> js_le (getStart oneKey 0) (Fin 0) \<and> js_le (Fin 0) (Fin (getEnd oneKey 0))
   \<and> lastSet (actorObjs (calculatePosition easeOutOnly oneKey 0 (Fin 0)) 0) = Some []"
proof -
  have idx: "timelinePropertyCacheIndex (actorObjs threeKeys 0) = [0, 500, 1000]"
    by (simp add: threeKeys_heap)
  have r250: "getPropertyCacheIdForMillisecond (actorObjs threeKeys 0) (Fin 250) = 0"
    by (simp add: getPropertyCacheIdForMillisecond_def idx cacheIdFrom.simps)
  have r750: "getPropertyCacheIdForMillisecond (actorObjs threeKeys 0) (Fin 750) = 1"
    by (simp add: getPropertyCacheIdForMillisecond_def idx cacheIdFrom.simps)
  have one: "length (timelinePropertyCacheIndex (actorObjs oneKey 0)) \<le> 1"
    by (simp add: oneKey_heap)
  have span: "js_le (getStart oneKey 0) (Fin 0)" "js_le (Fin 0) (Fin (getEnd oneKey 0))"
    by (simp_all add: getStart_def getEnd_def oneKey_heap msOf_def del: One_nat_def)
  from cache_lookup [of "actorObjs threeKeys 0" "Fin 250"] r250
  have a: "getPropertyCacheIdForMillisecond (actorObjs threeKeys 0) (Fin 250)
             = greatestIndexAtMost (timelinePropertyCacheIndex (actorObjs threeKeys 0)) (Fin 250)"
    by (simp add: idx)
  from cache_lookup [of "actorObjs threeKeys 0" "Fin 750"] r750
  have b: "getPropertyCacheIdForMillisecond (actorObjs threeKeys 0) (Fin 750)
             = greatestIndexAtMost (timelinePropertyCacheIndex (actorObjs threeKeys 0)) (Fin 750)"
    by (simp add: idx)
  from cache_lookup [of "actorObjs oneKey 0" "Fin 0"] one
  have r0: "getPropertyCacheIdForMillisecond (actorObjs oneKey 0) (Fin 0) = - 1"
    by blast
  from cache_lookup [of "actorObjs oneKey 0" "Fin 0"] r0 span
  have c: "lastSet (actorObjs (calculatePosition easeOutOnly oneKey 0 (Fin 0)) 0) = Some []"
    by blast
  from a b c r250 r750 r0 one span show ?thesis by (simp add: idx)
qed


section \<open>Rendering one tick\<close>

lemma kapis_calculatePosition [simp]: "kapis (calculatePosition interpolate w a ms) = kapis w"
  by (simp add: calculatePosition_def Let_def)

lemma calculatePositions_returns:
  "set ds \<subseteq> set as \<Longrightarrow>
     \<exists>w'. calculatePositions interpolate w as ms ds = Returned w' \<and> kapis w' = kapis w"
proof (induction ds arbitrary: w)
  case Nil
  then show ?case by simp
next
  case (Cons d ds)
  then have "d \<in> set as" "set ds \<subseteq> set as" by simp_all
  from Cons.IH [OF this(2), of "calculatePosition interpolate w d ms"] this(1)
  show ?case by simp
qed

lemma render_returns:
  assumes "set (drawOrder (kapis w k)) \<subseteq> set (actors (kapis w k))"
  shows "\<exists>w'. render interpolate w k ms = Returned w'
           \<and> actorObjs w' = actorObjs (state (calculateActorPositions interpolate w k ms))
           \<and> kapis w' k = (kapis w k)\<lparr>lastRenderedMillisecond := ms,
                                fired := fired (kapis w k) @ [onBeforeDraw, onFrameRender]\<rparr>"
proof -
  from calculatePositions_returns [OF assms, of interpolate w ms]
  obtain w1 where w1: "calculateActorPositions interpolate w k ms = Returned w1"
    "kapis w1 = kapis w"
    by (auto simp: calculateActorPositions_def)
  then show ?thesis using assms
    by (simp add: render_def andThen_def draw_def Let_def fireEvent_def)
qed

text \<open>
  On integers, \<^verbatim>\<open>Math.floor(a / b)\<close> and \<^verbatim>\<open>a % b\<close> (for a dividend that is not negative) are
  the quotient and the remainder of the division.
\<close>

lemma Math_floor_js_div_int:
  "b \<noteq> 0 \<Longrightarrow> Math_floor (js_div (Fin (of_int a)) (Fin (of_int b))) = Fin (of_int (a div b))"
  by (simp add: floor_divide_of_int_eq)

lemma js_rem_int:
  assumes "0 \<le> a" "0 < b"
  shows "js_rem (Fin (of_int a)) (Fin (of_int b)) = Fin (of_int (a mod b))"
proof -
  have "(0::rat) \<le> of_int a / of_int b" using assms by simp
  then have "truncateQuotient (of_int a / of_int b) = a div b"
    by (simp add: truncateQuotient_def floor_divide_of_int_eq)
  moreover have "a mod b = a - b * (a div b)" by (simp add: minus_mult_div_eq_mod)
  ultimately show ?thesis using assms by simp
qed

text \<open>
  The draw order of an engine names attached actors only: this holds for a new engine and
  is kept by \<^verbatim>\<open>addActor\<close>, by \<^verbatim>\<open>removeActor\<close>, by \<^verbatim>\<open>moveActorToLayer\<close> of an attached actor and
  by the keyframe methods. Under it \<^verbatim>\<open>render\<close> finds every actor it looks up.
  \<^verbatim>\<open>moveActorToLayer\<close> does not check that its actor is attached: called with another
  actor it breaks the condition, and the next \<^verbatim>\<open>render\<close> throws.
\<close>

lemma drawOrder_attached:
  "set (drawOrder Kapi_new) \<subseteq> set (actors Kapi_new)"
  "set (drawOrder (kapis w k)) \<subseteq> set (actors (kapis w k))
     \<Longrightarrow> set (drawOrder (kapis (addActor w k' a) k)) \<subseteq> set (actors (kapis (addActor w k' a) k))"
  "set (drawOrder (kapis w k)) \<subseteq> set (actors (kapis w k))
     \<Longrightarrow> set (drawOrder (kapis (removeActor w k' a) k))
           \<subseteq> set (actors (kapis (removeActor w k' a) k))"
  "set (drawOrder (kapis w k)) \<subseteq> set (actors (kapis w k)) \<Longrightarrow> a \<in> set (actors (kapis w k'))
     \<Longrightarrow> set (drawOrder (kapis (moveActorToLayer w k' a layer) k))
           \<subseteq> set (actors (kapis (moveActorToLayer w k' a layer) k))"
  "set (drawOrder (kapis w k)) \<subseteq> set (actors (kapis w k))
     \<Longrightarrow> set (drawOrder (kapis (state (actor_call w b c)) k))
           \<subseteq> set (actors (kapis (state (actor_call w b c)) k))"
proof -
  show "set (drawOrder Kapi_new) \<subseteq> set (actors Kapi_new)"
    by (simp add: Kapi_new_def)
  show "set (drawOrder (kapis (addActor w k' a) k)) \<subseteq> set (actors (kapis (addActor w k' a) k))"
    if "set (drawOrder (kapis w k)) \<subseteq> set (actors (kapis w k))"
    using that by (auto simp: addActor_def Let_def)
  show "set (drawOrder (kapis (removeActor w k' a) k))
           \<subseteq> set (actors (kapis (removeActor w k' a) k))"
    if "set (drawOrder (kapis w k)) \<subseteq> set (actors (kapis w k))"
    using that
    by (cases "k = k'")
       (auto simp: removeActor_def Let_def recalculateAnimationLength_kapi
          recalculateAnimationLength_def)
  show "set (drawOrder (kapis (moveActorToLayer w k' a layer) k))
           \<subseteq> set (actors (kapis (moveActorToLayer w k' a layer) k))"
    if "set (drawOrder (kapis w k)) \<subseteq> set (actors (kapis w k))" "a \<in> set (actors (kapis w k'))"
    using that
    by (auto simp: moveActorToLayer_def Let_def dest!: in_set_takeD in_set_dropD)
  show "set (drawOrder (kapis (state (actor_call w b c)) k))
           \<subseteq> set (actors (kapis (state (actor_call w b c)) k))"
    if "set (drawOrder (kapis w k)) \<subseteq> set (actors (kapis w k))"
    using that by (simp add: actor_call_engine)
qed

lemma renderMillisecond_returns:
  assumes "set (drawOrder (kapis w k)) \<subseteq> set (actors (kapis w k))"
  shows "\<exists>w'. renderMillisecond interpolate w k e = Returned w'
           \<and> actorObjs w'
               = actorObjs (state (calculateActorPositions interpolate w k
                   (calculateLoopPosition (kapis w k) e
                      (determineCurrentLoopIteration (kapis w k) e))))
           \<and> kapis w' k
               = updatePlayState
                   ((kapis w k)\<lparr>lastRenderedMillisecond :=
                        calculateLoopPosition (kapis w k) e
                          (determineCurrentLoopIteration (kapis w k) e),
                      fired := fired (kapis w k) @ [onBeforeDraw, onFrameRender]\<rparr>)
                   (determineCurrentLoopIteration (kapis w k) e)"
proof -
  let ?it = "determineCurrentLoopIteration (kapis w k) e"
  let ?pos = "calculateLoopPosition (kapis w k) e ?it"
  from render_returns [OF assms, of interpolate ?pos]
  obtain w1 where w1: "render interpolate w k ?pos = Returned w1"
    "actorObjs w1 = actorObjs (state (calculateActorPositions interpolate w k ?pos))"
    "kapis w1 k = (kapis w k)\<lparr>lastRenderedMillisecond := ?pos,
                      fired := fired (kapis w k) @ [onBeforeDraw, onFrameRender]\<rparr>"
    by blast
  have "renderMillisecond interpolate w k e
          = Returned (setKapi w1 k (updatePlayState (kapis w1 k) ?it))"
    by (simp add: renderMillisecond_def Let_def w1(1) andThen_def)
  with w1(2,3) show ?thesis by simp
qed

lemma updateFn_reschedules:
  assumes "set (drawOrder (kapis w k)) \<subseteq> set (actors (kapis w k))"
  shows "\<exists>w'. updateFn interpolate w k now = Returned w'
           \<and> pendingTick (kapis w' k)
               = (\<not> isAnimationComplete (kapis w k)
                      (determineCurrentLoopIteration (kapis w k)
                         (Fin (calculateTimeSinceStart (kapis w k) now))))"
proof -
  let ?w = "setKapi w k (tick (kapis w k))"
  have h: "set (drawOrder (kapis ?w k)) \<subseteq> set (actors (kapis ?w k))"
    using assms by (simp add: tick_def)
  from renderMillisecond_returns [OF h, of interpolate
         "Fin (calculateTimeSinceStart (kapis ?w k) now)"]
  show ?thesis
    by (auto simp: updateFn_def renderCurrentMillisecond_def updatePlayState_def
          isAnimationComplete_def determineCurrentLoopIteration_def
          calculateTimeSinceStart_def tick_def stop_def Let_def cancelLoop_def fireEvent_def)
qed

lemma playingTwice_kapi:
  "kapis playingTwice 0 =
     \<lparr> actors = [0], drawOrder = [0], playState = PLAYING, timesToIterate = Fin 2,
       animationLength = Fin 1000, pendingTick = True, loopTimestamp = Some 100,
       pausedAtTime = None, lastRenderedMillisecond = Fin 0,
       fired = [onPlayStateChange, onPlay] \<rparr>"
  by (simp add: playingTwice_def twoKeys_heap play_def Kapi_new_def cancelLoop_def tick_def
        fireEvent_def Let_def)

lemma actorCounts:
  "actorCount oneActor = 1" "actorCount oneKey = 1" "actorCount twoKeys = 1"
  "actorCount playingTwice = 1"
proof -
  show a: "actorCount oneActor = 1"
    by (simp add: oneActor_def addActor_def Actor_new_def emptyWorld_def heap_defs)
  show b: "actorCount oneKey = 1"
    by (simp add: oneKey_def oneActor_heap a keyframe_defs cache_defs heap_defs
          del: One_nat_def)
  show c: "actorCount twoKeys = 1"
    by (simp add: twoKeys_def oneKey_heap b keyframe_defs cache_defs heap_defs
          del: One_nat_def)
  show "actorCount playingTwice = 1"
    by (simp add: playingTwice_def c heap_defs)
qed

lemma strayLayer_kapi:
  "kapis strayLayer 0 =
     \<lparr> actors = [0], drawOrder = [1, 0], playState = PLAYING, timesToIterate = Fin 2,
       animationLength = Fin 1000, pendingTick = True, loopTimestamp = Some 100,
       pausedAtTime = None, lastRenderedMillisecond = Fin 0,
       fired = [onPlayStateChange, onPlay] \<rparr>"
  by (simp add: strayLayer_def moveActorToLayer_def Actor_new_def actorCounts
        playingTwice_kapi heap_defs del: One_nat_def)

text \<open>
  C4, as the specification states it, fails. In \<open>strayLayer\<close> the draw order is 1, 0 and
  only the actor 0 is attached. The tick at the elapsed time 2500, with the animation
  length 1000 and the loop target 2, is in its iteration 2; it throws in
  \<^verbatim>\<open>calculateActorPositions\<close>, nothing is rendered, the engine stays Playing and
  \<^verbatim>\<open>onAnimationComplete\<close> is not fired.
\<close>

theorem stray_layer_counterexample:
  "actors (kapis strayLayer 0) = [0]
   \<and> drawOrder (kapis strayLayer 0) = [1, 0]
   \<and> animationLength (kapis strayLayer 0) = Fin 1000
   \<and> timesToIterate (kapis strayLayer 0) = Fin 2
   \<and> Math_floor (js_div (Fin 2500) (animationLength (kapis strayLayer 0))) = Fin 2
   \<and> thrown (renderMillisecond easeOutOnly strayLayer 0 (Fin 2500)) = Some TypeError
   \<and> playState (kapis (state (renderMillisecond easeOutOnly strayLayer 0 (Fin 2500))) 0)
       = PLAYING
   \<and> lastRenderedMillisecond
         (kapis (state (renderMillisecond easeOutOnly strayLayer 0 (Fin 2500))) 0) = Fin 0
   \<and> onAnimationComplete
         \<notin> set (fired (kapis (state (renderMillisecond easeOutOnly strayLayer 0 (Fin 2500))) 0))"
proof -
  have it: "Math_floor (js_div (Fin 2500) (Fin 1000)) = Fin 2"
    using Math_floor_js_div_int [of 1000 2500] by simp
  have "renderMillisecond easeOutOnly strayLayer 0 (Fin 2500) = Thrown TypeError strayLayer"
    by (simp add: renderMillisecond_def render_def calculateActorPositions_def andThen_def
          Let_def strayLayer_kapi)
  then show ?thesis by (simp add: strayLayer_kapi it del: Math_floor.simps js_div.simps)
qed

text \<open>
  C4, amended. Rendering the elapsed time \<open>e\<close> on an engine whose draw order names attached
  actors only: with \<open>L\<close> the animation length and \<open>n\<close> the loop target, if
  \<^verbatim>\<open>Math.floor(e / L) >= n\<close> and \<open>n\<close> is not -1, the actors are positioned and the frame is
  rendered at \<open>L\<close>, the engine stops (the pending tick is cancelled) and
  \<^verbatim>\<open>onAnimationComplete\<close> is fired, after \<^verbatim>\<open>onStop\<close>; otherwise the position is \<^verbatim>\<open>e % L\<close>,
  and the play state and the pending tick stay as they were: playback continues, and
  \<^verbatim>\<open>onAnimationComplete\<close> is not fired.
\<close>

theorem renderMillisecond_position:
  assumes "set (drawOrder (kapis w k)) \<subseteq> set (actors (kapis w k))"
  shows "\<exists>w'. renderMillisecond interpolate w k e = Returned w' \<and>
          (if js_ge (Math_floor (js_div e (animationLength (kapis w k)))) (timesToIterate (kapis w k))
              \<and> timesToIterate (kapis w k) \<noteq> Fin (- 1)
           then actorObjs w'
                  = actorObjs (state (calculateActorPositions interpolate w k
                                        (animationLength (kapis w k))))
                \<and> lastRenderedMillisecond (kapis w' k) = animationLength (kapis w k)
                \<and> playState (kapis w' k) = STOPPED
                \<and> \<not> pendingTick (kapis w' k)
                \<and> fired (kapis w' k)
                    = fired (kapis w k)
                      @ [onBeforeDraw, onFrameRender, onPlayStateChange, onStop,
                         onAnimationComplete]
           else actorObjs w'
                  = actorObjs (state (calculateActorPositions interpolate w k
                                        (js_rem e (animationLength (kapis w k)))))
                \<and> lastRenderedMillisecond (kapis w' k) = js_rem e (animationLength (kapis w k))
                \<and> playState (kapis w' k) = playState (kapis w k)
                \<and> pendingTick (kapis w' k) = pendingTick (kapis w k)
                \<and> fired (kapis w' k) = fired (kapis w k) @ [onBeforeDraw, onFrameRender])"
proof -
  from renderMillisecond_returns [OF assms, of interpolate e]
  obtain w' where w': "renderMillisecond interpolate w k e = Returned w'"
    "actorObjs w'
       = actorObjs (state (calculateActorPositions interpolate w k
           (calculateLoopPosition (kapis w k) e (determineCurrentLoopIteration (kapis w k) e))))"
    "kapis w' k
       = updatePlayState
           ((kapis w k)\<lparr>lastRenderedMillisecond :=
                calculateLoopPosition (kapis w k) e
                  (determineCurrentLoopIteration (kapis w k) e),
              fired := fired (kapis w k) @ [onBeforeDraw, onFrameRender]\<rparr>)
           (determineCurrentLoopIteration (kapis w k) e)"
    by blast
  show ?thesis
    using w'
    by (simp add: updatePlayState_def isAnimationComplete_def calculateLoopPosition_def
          determineCurrentLoopIteration_def stop_def Let_def cancelLoop_def fireEvent_def)
qed

theorem renderMillisecond_position_witness:
  "set (drawOrder (kapis playingTwice 0)) \<subseteq> set (actors (kapis playingTwice 0))
   \<and> (\<exists>w'. renderMillisecond easeOutOnly playingTwice 0 (Fin 2500) = Returned w'
         \<and> lastRenderedMillisecond (kapis w' 0) = Fin 1000
         \<and> playState (kapis w' 0) = STOPPED
         \<and> fired (kapis w' 0)
             = [onPlayStateChange, onPlay, onBeforeDraw, onFrameRender, onPlayStateChange,
                onStop, onAnimationComplete])
   \<and> (\<exists>w'. renderMillisecond easeOutOnly playingTwice 0 (Fin 1500) = Returned w'
         \<and> lastRenderedMillisecond (kapis w' 0) = Fin 500
         \<and> playState (kapis w' 0) = PLAYING
         \<and> pendingTick (kapis w' 0)
         \<and> fired (kapis w' 0) = [onPlayStateChange, onPlay, onBeforeDraw, onFrameRender])"
proof -
  have h: "set (drawOrder (kapis playingTwice 0)) \<subseteq> set (actors (kapis playingTwice 0))"
    by (simp add: playingTwice_kapi)
  have "\<exists>w'. renderMillisecond easeOutOnly playingTwice 0 (Fin 2500) = Returned w'
         \<and> lastRenderedMillisecond (kapis w' 0) = Fin 1000
         \<and> playState (kapis w' 0) = STOPPED
         \<and> fired (kapis w' 0)
             = [onPlayStateChange, onPlay, onBeforeDraw, onFrameRender, onPlayStateChange,
                onStop, onAnimationComplete]"
    using renderMillisecond_position [OF h, of easeOutOnly "Fin 2500"]
    by (auto simp: playingTwice_kapi)
  moreover have "\<exists>w'. renderMillisecond easeOutOnly playingTwice 0 (Fin 1500) = Returned w'
         \<and> lastRenderedMillisecond (kapis w' 0) = Fin 500
         \<and> playState (kapis w' 0) = PLAYING
         \<and> pendingTick (kapis w' 0)
         \<and> fired (kapis w' 0) = [onPlayStateChange, onPlay, onBeforeDraw, onFrameRender]"
    using renderMillisecond_position [OF h, of easeOutOnly "Fin 1500"]
      js_rem_int [of 1500 1000]
    by (auto simp: playingTwice_kapi simp del: js_rem.simps)
  ultimately show ?thesis using h by blast
qed


section \<open>Tracks stay sorted\<close>

lemma tracksSorted_cong:
  "msOf w' = msOf w \<Longrightarrow> propertyTracks (actorObjs w' a) = propertyTracks (actorObjs w a)
     \<Longrightarrow> tracksSorted w' a = tracksSorted w a"
  by (simp add: tracksSorted_def)

lemma tracksSorted_sortPropertyTracks: "tracksSorted (sortPropertyTracks w a) a"
  by (simp add: tracksSorted_def sortPropertyTracks_def Let_def list_all_iff split_def)

lemma tracksSorted_keyframeEntry: "tracksSorted (keyframeEntry a when e entry w) a"
  by (simp add: keyframeEntry_def Let_def split_def tracksSorted_sortPropertyTracks)

lemma tracksSorted_keyframeEntries:
  "tracksSorted w a \<Longrightarrow> tracksSorted (fold (keyframeEntry a when e) position w) a"
  by (induction position arbitrary: w) (simp_all add: tracksSorted_keyframeEntry)

lemma state_recalculateOwner [simp]:
  "msOf (state (recalculateOwner w a)) = msOf w"
  "actorObjs (state (recalculateOwner w a)) = actorObjs w"
  by (simp_all add: recalculateOwner_def split: option.splits)

lemma tracksSorted_after_owner:
  "tracksSorted w a \<Longrightarrow>
     tracksSorted (state (andThen (recalculateOwner w a)
                            (\<lambda>w1. Returned (invalidatePropertyCache w1 a)))) a"
  by (cases "kapi (actorObjs w a)")
     (simp_all add: recalculateOwner_def andThen_def tracksSorted_def)

lemma tracksSorted_keyframe:
  "tracksSorted w a \<Longrightarrow> tracksSorted (state (keyframe w a when position e)) a"
  unfolding keyframe_def
  by (rule tracksSorted_after_owner) (rule tracksSorted_keyframeEntries)

lemma sorted_remove_nth:
  fixes ys :: "'a::linorder list"
  assumes "sorted ys"
  shows "sorted (take i ys @ drop (Suc i) ys)"
proof -
  have "sorted (take i ys @ drop i ys)" using assms by simp
  then have le: "\<forall>x\<in>set (take i ys). \<forall>y\<in>set (drop i ys). x \<le> y"
    unfolding sorted_append by blast
  have sub: "set (drop (Suc i) ys) \<subseteq> set (drop i ys)"
    by (rule set_drop_subset_set_drop) simp
  have "sorted (take i ys)" "sorted (drop (Suc i) ys)"
    using assms by (simp_all add: sorted_wrt_take sorted_wrt_drop)
  with le sub show ?thesis unfolding sorted_append by blast
qed

lemma sorted_splice1: "sorted (map f xs) \<Longrightarrow> sorted (map f (splice1 i xs))"
  using sorted_remove_nth [of "map f xs" i]
  by (simp add: splice1_def take_map drop_map)

lemma tracksSorted_removeKeyframe:
  assumes "tracksSorted w a"
  shows "tracksSorted (state (removeKeyframe w a when)) a"
proof -
  let ?tracks = "map (\<lambda>(propertyName, propertyTrack).
                       (propertyName,
                        case scanFor w when propertyTrack 0 of
                          None \<Rightarrow> propertyTrack | Some i \<Rightarrow> splice1 i propertyTrack))
                     (propertyTracks (actorObjs w a))"
  have "list_all (\<lambda>(nm, track). sorted (map (msOf w) track)) ?tracks"
    using assms
    by (auto simp: tracksSorted_def list_all_iff sorted_splice1 split: option.splits)
  then show ?thesis
    unfolding removeKeyframe_def Let_def
    by (intro tracksSorted_after_owner) (simp add: tracksSorted_def)
qed

lemma tracksSorted_modifyKeyframeProperty:
  assumes "tracksSorted w a"
  shows "tracksSorted (state (modifyKeyframeProperty w a property index newProperties)) a"
proof -
  have s: "tracksSorted (invalidatePropertyCache (sortPropertyTracks w1 a) a) a" for w1 :: "'a world"
    using tracksSorted_sortPropertyTracks [of w1 a] by (simp add: tracksSorted_def)
  show ?thesis
    using assms
    by (auto simp: modifyKeyframeProperty_def andThen_def s split: option.splits)
qed

lemma tracksSorted_Actor_new: "tracksSorted (state (Actor_new w c)) (actorCount w)"
  by (simp add: Actor_new_def Let_def tracksSorted_def)

text \<open>
  C6. If every property track of an actor is sorted ascending by millisecond, then so is
  every track after any finite sequence of \<^verbatim>\<open>keyframe\<close>, \<^verbatim>\<open>removeKeyframe\<close> and
  \<^verbatim>\<open>modifyKeyframeProperty\<close> calls on the actor, whether the calls return or throw.
\<close>

theorem tracks_stay_sorted:
  "tracksSorted w a \<Longrightarrow> tracksSorted (actor_calls w a cs) a"
proof (induction cs arbitrary: w)
  case Nil
  then show ?case by simp
next
  case (Cons c cs)
  have "tracksSorted (state (actor_call w a c)) a"
    using Cons.prems
    by (cases c)
       (simp_all add: tracksSorted_keyframe tracksSorted_removeKeyframe
          tracksSorted_modifyKeyframeProperty)
  then show ?case using Cons.IH by simp
qed

theorem tracks_stay_sorted_witness:
  "tracksSorted oneActor 0
   \<and> tracksSorted (actor_calls oneActor 0 fiveCalls) 0
   \<and> map (\<lambda>(nm, track). (nm, map (msOf (actor_calls oneActor 0 fiveCalls)) track))
       (propertyTracks (actorObjs (actor_calls oneActor 0 fiveCalls) 0))
     = [(''x'', [500, 2000]), (''y'', [500])]"
proof -
  have h: "tracksSorted oneActor 0"
    by (simp add: tracksSorted_def oneActor_heap)
  have "map (\<lambda>(nm, track). (nm, map (msOf (actor_calls oneActor 0 fiveCalls)) track))
          (propertyTracks (actorObjs (actor_calls oneActor 0 fiveCalls) 0))
        = [(''x'', [500, 2000]), (''y'', [500])]"
    by (simp add: fiveCalls_def oneActor_heap keyframe_defs cache_defs heap_defs Kapi_new_def
          modifyKeyframeProperty_def removeKeyframe_def modifyWith_def splice1_def
          del: One_nat_def)
  with h show ?thesis by (intro conjI tracks_stay_sorted)
qed


section \<open>The animation length\<close>

text \<open>
  \<^verbatim>\<open>_recalculateAnimationLength\<close> stores the maximum of \<^verbatim>\<open>getEnd()\<close> over the attached actors
  when there is one, and \<^verbatim>\<open>-Infinity\<close> when there is none. \<^verbatim>\<open>removeActor\<close> calls it, and so do
  \<^verbatim>\<open>keyframe\<close> and \<^verbatim>\<open>removeKeyframe\<close> on an actor that has an engine; \<^verbatim>\<open>addActor\<close> and
  \<^verbatim>\<open>modifyKeyframeProperty\<close> leave the stored length as it is.
\<close>

lemma recalculateAnimationLength_value:
  "animationLength (kapis (recalculateAnimationLength w k) k)
     = (if actors (kapis w k) = [] then NegInf
        else Fin (Max (getEnd w ` set (actors (kapis w k)))))"
proof (cases "actors (kapis w k)")
  case Nil
  then show ?thesis by (simp add: recalculateAnimationLength_kapi)
next
  case (Cons a as)
  then show ?thesis
    by (simp add: recalculateAnimationLength_kapi Max.set_eq_fold [symmetric])
qed

lemma keyframe_attached:
  assumes "kapi (actorObjs w a) = Some k"
  shows "returns (keyframe w a when position e)
         \<and> animationLength (kapis (state (keyframe w a when position e)) k)
             = Math_max (map (getEnd (state (keyframe w a when position e)))
                           (actors (kapis (state (keyframe w a when position e)) k)))"
  using assms by (simp add: keyframe_def recalculateOwner_def andThen_def
        recalculateAnimationLength_kapi)

lemma removeKeyframe_attached:
  assumes "kapi (actorObjs w a) = Some k"
  shows "returns (removeKeyframe w a when)
         \<and> animationLength (kapis (state (removeKeyframe w a when)) k)
             = Math_max (map (getEnd (state (removeKeyframe w a when)))
                           (actors (kapis (state (removeKeyframe w a when)) k)))"
  using assms
  by (simp add: removeKeyframe_def recalculateOwner_def andThen_def
        recalculateAnimationLength_kapi Let_def)

lemma removeActor_recalculates:
  "animationLength (kapis (removeActor w k a) k)
     = Math_max (map (getEnd (removeActor w k a)) (actors (kapis (removeActor w k a) k)))"
  by (simp add: removeActor_def recalculateAnimationLength_kapi Let_def)

lemma animationLength_addActor:
  "animationLength (kapis (addActor w k a) k) = animationLength (kapis w k)"
  by (simp add: addActor_def Let_def)

text \<open>
  C1 asks that the stored animation length be the maximum of \<^verbatim>\<open>getEnd()\<close> over the attached
  actors after \<^verbatim>\<open>addActor\<close>, \<^verbatim>\<open>removeActor\<close>, \<^verbatim>\<open>keyframe\<close>, \<^verbatim>\<open>removeKeyframe\<close> and
  \<^verbatim>\<open>modifyKeyframeProperty\<close>. The code keeps a stale length after the first and the last of
  them. In \<open>movedKey\<close> the only actor ends at 2000, where \<^verbatim>\<open>modifyKeyframeProperty\<close> has moved
  its last keyframe property, and the stored length is still 1000. In \<open>readded\<close> the actor,
  removed and added again, ends at 1000, and the stored length is the \<^verbatim>\<open>-Infinity\<close> that
  the removal has left.
\<close>

theorem stale_animationLength:
  "actors (kapis movedKey 0) = [0]
   \<and> Math_max (map (getEnd movedKey) (actors (kapis movedKey 0))) = Fin 2000
   \<and> animationLength (kapis movedKey 0) = Fin 1000
   \<and> actors (kapis readded 0) = [0]
   \<and> Math_max (map (getEnd readded) (actors (kapis readded 0))) = Fin 1000
   \<and> animationLength (kapis readded 0) = NegInf"
  by (simp add: movedKey_heap readded_heap getEnd_def Kapi_new_def del: One_nat_def)

text \<open>
  C5 asks that a recomputation on an engine without actors store 0. The code applies
  \<^verbatim>\<open>Math.max\<close> to an empty array: removing the only actor of \<open>twoKeys\<close> leaves the stored
  length at \<^verbatim>\<open>-Infinity\<close>. (\<^verbatim>\<open>getStart\<close> guards the same case of \<^verbatim>\<open>Math.min\<close> with a default 0.)
\<close>

theorem removeActor_last_length:
  "actors (kapis twoKeys 0) = [0]
   \<and> animationLength (kapis twoKeys 0) = Fin 1000
   \<and> actors (kapis (removeActor twoKeys 0 0) 0) = []
   \<and> animationLength (kapis (removeActor twoKeys 0 0) 0) = NegInf"
  by (simp add: twoKeys_heap removeActor_def recalculateAnimationLength_kapi Let_def
        Kapi_new_def)


section \<open>Calls that throw\<close>

lemma keyframe_unattached:
  "kapi (actorObjs w a) = None \<Longrightarrow> thrown (keyframe w a when position e) = Some TypeError"
  by (simp add: keyframe_def recalculateOwner_def andThen_def)

lemma removeKeyframe_unattached:
  "kapi (actorObjs w a) = None \<Longrightarrow> thrown (removeKeyframe w a when) = Some TypeError"
  by (simp add: removeKeyframe_def recalculateOwner_def andThen_def Let_def)

text \<open>
  C9 asks that no operation raise an exception. On a new actor that has not been added
  to an engine, \<^verbatim>\<open>keyframe\<close> and \<^verbatim>\<open>removeKeyframe\<close> throw a TypeError, at the call
  \<^verbatim>\<open>this.kapi._recalculateAnimationLength()\<close> on an undefined \<^verbatim>\<open>kapi\<close>; so does
  \<^verbatim>\<open>modifyKeyframeProperty\<close> of an existing keyframe property when its third argument is
  missing, and the constructor of an actor throws a ReferenceError when its configuration
  has a \<^verbatim>\<open>context\<close>.
\<close>

theorem unattached_actor_throws:
  "returns (Actor_new (emptyWorld (0::rat)) False)
   \<and> thrown (keyframe unattached 0 0 [(''x'', 0)] no_easing) = Some TypeError
   \<and> thrown (removeKeyframe unattached 0 0) = Some TypeError
   \<and> thrown (modifyKeyframeProperty twoKeys 0 ''x'' 0 None) = Some TypeError
   \<and> thrown (Actor_new (emptyWorld (0::rat)) True) = Some ReferenceError"
  by (simp add: keyframe_unattached removeKeyframe_unattached unattached_heap Actor_new_def
        Let_def modifyKeyframeProperty_def twoKeys_heap andThen_def)

end
